theory Spec2Isabelle
  imports Complex_Main
begin

section \<open>Python values shared by both modules\<close>

text \<open>
  Strings are lists of 8-bit characters, read as the code points 0..255. Python floats
  (timestamps, round-trip times, percentages) are modelled as exact rationals. Every
  exception that the two modules can meet is a value of \<open>py_exc\<close>; all of them are
  subclasses of Python's \<open>Exception\<close>.
\<close>

datatype py_exc =
    NameError | ValueError | IndexError
  | TimeoutExpired | FileNotFoundError
  | NoSuchProcess | AccessDenied
  | herror | gaierror
  | OtherException

abbreviation nl :: char where
  "nl \<equiv> CHR 0x0A"

text \<open>\<open>str.isspace\<close> on one character, which is also the class \<open>\s\<close> of \<open>re\<close> and the
  separator set of \<open>str.split()\<close> and \<open>str.strip()\<close>.\<close>

definition is_space :: "char \<Rightarrow> bool" where
  "is_space c = (let n = of_char c :: nat in
     (9 \<le> n \<and> n \<le> 13) \<or> (28 \<le> n \<and> n \<le> 32) \<or> n = 133 \<or> n = 160)"

definition is_digit :: "char \<Rightarrow> bool" where
  "is_digit c = (let n = of_char c :: nat in 48 \<le> n \<and> n \<le> 57)"

text \<open>\<open>str.lower\<close> on the code points 0..255: the ASCII capitals and the Latin-1 capitals
  (all of 0xC0..0xDE but the multiplication sign 0xD7) move up by 32.\<close>

definition lower_char :: "char \<Rightarrow> char" where
  "lower_char c = (let n = of_char c :: nat in
     if (65 \<le> n \<and> n \<le> 90) \<or> (192 \<le> n \<and> n \<le> 222 \<and> n \<noteq> 215)
     then char_of (n + 32) else c)"

definition lower :: "string \<Rightarrow> string" where
  "lower s = map lower_char s"

text \<open>\<open>str.upper\<close>, used by the source only on the ASCII keys of its carrier table.\<close>

definition upper_char :: "char \<Rightarrow> char" where
  "upper_char c = (let n = of_char c :: nat in
     if 97 \<le> n \<and> n \<le> 122 then char_of (n - 32) else c)"

definition upper :: "string \<Rightarrow> string" where
  "upper s = map upper_char s"

fun startswith :: "string \<Rightarrow> string \<Rightarrow> bool" where
  "startswith [] s = True"
| "startswith (p # ps) [] = False"
| "startswith (p # ps) (c # cs) = (p = c \<and> startswith ps cs)"

text \<open>\<open>p in s\<close> for two strings: \<open>p\<close> occurs in \<open>s\<close> as a contiguous substring.\<close>

fun str_in :: "string \<Rightarrow> string \<Rightarrow> bool" where
  "str_in p [] = (p = [])"
| "str_in p (c # cs) = (startswith p (c # cs) \<or> str_in p cs)"

text \<open>The loop \<open>for pattern in patterns: if pattern in s: return True\<close>.\<close>

fun any_pattern_in :: "string list \<Rightarrow> string \<Rightarrow> bool" where
  "any_pattern_in [] s = False"
| "any_pattern_in (p # ps) s = (if str_in p s then True else any_pattern_in ps s)"

text \<open>\<open>str(n)\<close> for an integer: decimal digits, with a minus sign below zero.\<close>

definition digit_char :: "nat \<Rightarrow> char" where
  "digit_char d = ''0123456789'' ! d"

fun str_nat :: "nat \<Rightarrow> string" where
  "str_nat n = (if n < 10 then [digit_char n] else str_nat (n div 10) @ [digit_char (n mod 10)])"

declare str_nat.simps [simp del]

definition str_int :: "int \<Rightarrow> string" where
  "str_int i = (if i < 0 then CHR ''-'' # str_nat (nat (- i)) else str_nat (nat i))"

section \<open>network_monitor.py: the connection sampler\<close>

record NetworkConnection =
  timestamp :: rat
  local_addr :: string
  local_port :: int
  remote_addr :: string
  remote_port :: int
  protocol :: string
  status :: string
  process_name :: string

text \<open>
  What psutil reports for one socket: \<open>laddr\<close> and \<open>raddr\<close> are either the empty tuple
  or an \<open>addr(ip, port)\<close> pair.
\<close>

datatype addr = NoAddr | Addr string int

datatype sock_type = SOCK_STREAM | SOCK_DGRAM

record sconn =
  conn_type :: sock_type
  laddr :: addr
  raddr :: addr
  conn_status :: string

definition CONN_NONE :: string where
  "CONN_NONE = ''NONE''"

text \<open>
  Library renderings that the module calls and that are taken as parameters:
  \<open>strftime t\<close> is \<open>time.strftime('%H:%M:%S', time.localtime(t))\<close>, \<open>str_addr a\<close> is
  \<open>str(a)\<close> of an address tuple, \<open>str_exc e\<close> is \<open>str(e)\<close> of an exception.
\<close>

record platform =
  strftime :: "rat \<Rightarrow> string"
  str_addr :: "addr \<Rightarrow> string"
  str_exc :: "py_exc \<Rightarrow> string"

text \<open>\<open>NetworkConnection.__str__\<close>.\<close>

definition conn_str :: "platform \<Rightarrow> NetworkConnection \<Rightarrow> string" where
  "conn_str pf c =
     strftime pf (timestamp c) @ '' '' @ protocol c @ '' '' @
     local_addr c @ '':'' @ str_int (local_port c) @ '' -> '' @
     remote_addr c @ '':'' @ str_int (remote_port c) @ '' ['' @ status c @ '']''"

record NetworkStats =
  total_connections :: int
  smtp_connections :: int
  imap_connections :: int
  dns_queries :: int
  other_connections :: int
  suspicious_connections :: int
  bytes_sent :: int
  bytes_received :: int

definition NetworkStats_default :: NetworkStats where
  "NetworkStats_default = \<lparr> total_connections = 0, smtp_connections = 0,
     imap_connections = 0, dns_queries = 0, other_connections = 0,
     suspicious_connections = 0, bytes_sent = 0, bytes_received = 0 \<rparr>"

datatype log_level = INFO | WARNING | ERROR

text \<open>
  The monitor object. \<open>logged\<close> is what the logger's file handler has received, in
  order; \<open>pid\<close> is \<open>self.process.pid\<close>. The background thread object itself is not part of
  the state: one pass of its loop body is the function \<open>monitor_tick\<close> below.
\<close>

record NetworkMonitor =
  monitoring :: bool
  connections :: "NetworkConnection list"
  stats :: NetworkStats
  known_connections :: "string set"
  logged :: "(log_level \<times> string) list"
  log_file_path :: string
  pid :: int

definition logger :: "log_level \<Rightarrow> string \<Rightarrow> NetworkMonitor \<Rightarrow> NetworkMonitor" where
  "logger lvl msg m = m\<lparr> logged := logged m @ [(lvl, msg)] \<rparr>"

text \<open>\<open>NetworkMonitor.__init__\<close>, after the log file has been chosen.\<close>

definition init_monitor :: "string \<Rightarrow> int \<Rightarrow> NetworkMonitor" where
  "init_monitor path p = \<lparr> monitoring = False, connections = [],
     stats = NetworkStats_default, known_connections = {}, logged = [],
     log_file_path = path, pid = p \<rparr>"

definition suspicious_patterns :: "string list" where
  "suspicious_patterns = [''telemetry'', ''analytics'', ''tracking'', ''metrics'',
     ''stats'', ''api.github.com'', ''pypi.org'']"

definition expected_services :: "(int \<times> string) list" where
  "expected_services = [(25, ''SMTP''), (587, ''SMTP-STARTTLS''), (465, ''SMTPS''),
     (993, ''IMAPS''), (143, ''IMAP''), (53, ''DNS''), (80, ''HTTP''), (443, ''HTTPS'')]"

text \<open>\<open>start_monitoring\<close>. \<open>pname\<close> is the outcome of \<open>self.process.name()\<close> in the third
  log call; when it raises, the flag is already set and the exception leaves the
  method.\<close>

definition start_monitoring ::
  "(py_exc + string) \<Rightarrow> NetworkMonitor \<Rightarrow> NetworkMonitor \<times> py_exc option" where
  "start_monitoring pname m =
     (if monitoring m then (m, None)
      else
        let m1 = m\<lparr> monitoring := True \<rparr>;
            m2 = logger INFO ''=== NETWORK MONITORING STARTED ==='' m1;
            m3 = logger INFO (''Process PID: '' @ str_int (pid m2)) m2
        in case pname of
             Inl e \<Rightarrow> (m3, Some e)
           | Inr name \<Rightarrow>
               (logger INFO ''Monitoring all network connections for this process...''
                  (logger INFO (''Process Name: '' @ name) m3), None))"

definition stop_monitoring :: "NetworkMonitor \<Rightarrow> NetworkMonitor" where
  "stop_monitoring m =
     (if \<not> monitoring m then m
      else
        let m1 = m\<lparr> monitoring := False \<rparr>;
            m2 = logger INFO ''=== NETWORK MONITORING STOPPED ==='' m1;
            m3 = logger INFO (''Total connections monitored: '' @
                   str_int (total_connections (stats m2))) m2;
            m4 = logger INFO (''SMTP connections: '' @
                   str_int (smtp_connections (stats m3))) m3;
            m5 = logger INFO (''IMAP connections: '' @
                   str_int (imap_connections (stats m4))) m4;
            m6 = logger INFO (''DNS queries: '' @ str_int (dns_queries (stats m5))) m5
        in logger INFO (''Suspicious connections: '' @
             str_int (suspicious_connections (stats m6))) m6)"

text \<open>\<open>_is_suspicious_connection\<close>: the watch patterns first, then the port rule.\<close>

definition is_suspicious_connection :: "NetworkConnection \<Rightarrow> bool" where
  "is_suspicious_connection c =
     (let remote_lower = lower (remote_addr c) in
      if any_pattern_in suspicious_patterns remote_lower then True
      else if remote_port c \<notin> set (map fst expected_services) then
        (if remote_port c > 8000 \<and> remote_port c \<noteq> 8080 \<and> remote_port c \<noteq> 8443
         then True else False)
      else False)"

text \<open>\<open>_categorize_connection\<close>.\<close>

definition categorize_connection ::
  "platform \<Rightarrow> NetworkConnection \<Rightarrow> int \<Rightarrow> NetworkMonitor \<Rightarrow> NetworkMonitor" where
  "categorize_connection pf c rport m =
     (if rport \<in> set [25, 587, 465, 2525] then
        logger INFO (''SMTP CONNECTION: '' @ conn_str pf c)
          (m\<lparr> stats := (stats m)\<lparr> smtp_connections := smtp_connections (stats m) + 1 \<rparr> \<rparr>)
      else if rport \<in> set [993, 143] then
        logger INFO (''IMAP CONNECTION: '' @ conn_str pf c)
          (m\<lparr> stats := (stats m)\<lparr> imap_connections := imap_connections (stats m) + 1 \<rparr> \<rparr>)
      else if rport = 53 then
        logger INFO (''DNS QUERY: '' @ conn_str pf c)
          (m\<lparr> stats := (stats m)\<lparr> dns_queries := dns_queries (stats m) + 1 \<rparr> \<rparr>)
      else
        let m1 = m\<lparr> stats := (stats m)\<lparr> other_connections :=
                     other_connections (stats m) + 1 \<rparr> \<rparr>
        in if is_suspicious_connection c then
             logger WARNING (''SUSPICIOUS CONNECTION: '' @ conn_str pf c)
               (m1\<lparr> stats := (stats m1)\<lparr> suspicious_connections :=
                      suspicious_connections (stats m1) + 1 \<rparr> \<rparr>)
           else logger INFO (''OTHER CONNECTION: '' @ conn_str pf c) m1)"

text \<open>
  What one pass of the loop body meets outside the program: the clock, the outcome of
  \<open>self.process.connections(kind='inet')\<close>, of \<open>self.process.name()\<close> and of
  \<open>socket.gethostbyaddr(a)[0]\<close>.
\<close>

record tick_env =
  current_time :: rat
  proc_connections :: "py_exc + sconn list"
  proc_name :: "py_exc + string"
  gethostbyaddr :: "string \<Rightarrow> py_exc + string"

text \<open>\<open>_log_connection\<close>: the two resolver errors are swallowed, any other exception
  leaves the method before the line is logged.\<close>

definition log_connection ::
  "tick_env \<Rightarrow> NetworkConnection \<Rightarrow> NetworkMonitor \<Rightarrow> NetworkMonitor \<times> py_exc option" where
  "log_connection env c m =
     (let service_name = (case map_of expected_services (remote_port c) of
                            Some v \<Rightarrow> v | None \<Rightarrow> ''UNKNOWN'');
          log_msg = ''CONNECTION: '' @ protocol c @ '' '' @
                    local_addr c @ '':'' @ str_int (local_port c) @ '' -> '' @
                    remote_addr c @ '':'' @ str_int (remote_port c) @ '' '' @
                    ''['' @ status c @ ''] Service: '' @ service_name
      in case gethostbyaddr env (remote_addr c) of
           Inr h \<Rightarrow>
             (logger INFO (if h \<noteq> ''unknown'' then log_msg @ '' Hostname: '' @ h
                           else log_msg) m, None)
         | Inl e \<Rightarrow>
             (if e = herror \<or> e = gaierror then (logger INFO log_msg m, None)
              else (m, Some e)))"

text \<open>The identity key \<open>f"{conn.laddr}:{conn.raddr}:{conn.status}"\<close>.\<close>

definition conn_id :: "platform \<Rightarrow> sconn \<Rightarrow> string" where
  "conn_id pf conn = str_addr pf (laddr conn) @ '':'' @ str_addr pf (raddr conn) @ '':'' @
     conn_status conn"

text \<open>
  The body of \<open>for conn in connections\<close> in \<open>_monitor_loop\<close>, for one sampled
  connection. The second component is the exception that leaves the body, if any; the
  state returned with it holds every update made before the exception.
\<close>

definition observe ::
  "platform \<Rightarrow> tick_env \<Rightarrow> sconn \<Rightarrow> NetworkMonitor \<Rightarrow> NetworkMonitor \<times> py_exc option" where
  "observe pf env conn m =
     (if conn_status conn = CONN_NONE then (m, None)
      else if conn_id pf conn \<in> known_connections m then (m, None)
      else
        let m1 = m\<lparr> known_connections := insert (conn_id pf conn) (known_connections m) \<rparr>;
            l_addr = (case laddr conn of Addr ip p \<Rightarrow> ip | NoAddr \<Rightarrow> ''unknown'');
            l_port = (case laddr conn of Addr ip p \<Rightarrow> p | NoAddr \<Rightarrow> 0);
            r_addr = (case raddr conn of Addr ip p \<Rightarrow> ip | NoAddr \<Rightarrow> ''unknown'');
            r_port = (case raddr conn of Addr ip p \<Rightarrow> p | NoAddr \<Rightarrow> 0);
            proto = (if conn_type conn = SOCK_STREAM then ''TCP'' else ''UDP'')
        in case proc_name env of
             Inl e \<Rightarrow> (m1, Some e)
           | Inr name \<Rightarrow>
               let net_conn = \<lparr> timestamp = current_time env, local_addr = l_addr,
                                local_port = l_port, remote_addr = r_addr,
                                remote_port = r_port, protocol = proto,
                                status = conn_status conn, process_name = name \<rparr>;
                   m2 = m1\<lparr> connections := connections m1 @ [net_conn] \<rparr>;
                   m3 = m2\<lparr> stats := (stats m2)\<lparr> total_connections :=
                               total_connections (stats m2) + 1 \<rparr> \<rparr>;
                   m4 = categorize_connection pf net_conn r_port m3
               in log_connection env net_conn m4)"

text \<open>The \<open>for\<close> loop: an exception ends it at once.\<close>

fun observe_all ::
  "platform \<Rightarrow> tick_env \<Rightarrow> sconn list \<Rightarrow> NetworkMonitor \<Rightarrow> NetworkMonitor \<times> py_exc option" where
  "observe_all pf env [] m = (m, None)"
| "observe_all pf env (conn # rest) m =
     (case observe pf env conn m of
        (m', None) \<Rightarrow> observe_all pf env rest m'
      | (m', Some e) \<Rightarrow> (m', Some e))"

text \<open>
  One pass of \<open>while self.monitoring\<close>: the \<open>try\<close> block and its two handlers. The
  boolean says whether the loop goes on (\<open>False\<close> is the \<open>break\<close>).
\<close>

definition loop_handler :: "platform \<Rightarrow> py_exc \<Rightarrow> NetworkMonitor \<Rightarrow> NetworkMonitor \<times> bool" where
  "loop_handler pf e m =
     (if e = NoSuchProcess \<or> e = AccessDenied then (m, False)
      else (logger ERROR (''Error in monitoring loop: '' @ str_exc pf e) m, True))"

definition monitor_tick :: "platform \<Rightarrow> tick_env \<Rightarrow> NetworkMonitor \<Rightarrow> NetworkMonitor \<times> bool" where
  "monitor_tick pf env m =
     (case proc_connections env of
        Inl e \<Rightarrow> loop_handler pf e m
      | Inr conns \<Rightarrow>
          (case observe_all pf env conns m of
             (m', None) \<Rightarrow> (m', True)
           | (m', Some e) \<Rightarrow> loop_handler pf e m'))"

text \<open>The read accessors.\<close>

definition get_smtp_connections :: "NetworkMonitor \<Rightarrow> NetworkConnection list" where
  "get_smtp_connections m = filter (\<lambda>c. remote_port c \<in> set [25, 587, 465, 2525]) (connections m)"

definition get_imap_connections :: "NetworkMonitor \<Rightarrow> NetworkConnection list" where
  "get_imap_connections m = filter (\<lambda>c. remote_port c \<in> set [993, 143]) (connections m)"

text \<open>\<open>get_suspicious_connections\<close>: the loop that appends to \<open>suspicious\<close>.\<close>

fun collect_suspicious ::
  "NetworkConnection list \<Rightarrow> NetworkConnection list \<Rightarrow> NetworkConnection list" where
  "collect_suspicious suspicious [] = suspicious"
| "collect_suspicious suspicious (c # cs) =
     collect_suspicious (if is_suspicious_connection c then suspicious @ [c] else suspicious) cs"

definition get_suspicious_connections :: "NetworkMonitor \<Rightarrow> NetworkConnection list" where
  "get_suspicious_connections m = collect_suspicious [] (connections m)"

text \<open>
  \<open>export_report\<close>: the text written to the report file, one \<open>f.write\<close> after the other.
  \<open>generated\<close> is \<open>time.strftime('%Y-%m-%d %H:%M:%S')\<close> at the time of the call.
\<close>

definition write_conns :: "platform \<Rightarrow> NetworkConnection list \<Rightarrow> string" where
  "write_conns pf cs = concat (map (\<lambda>c. conn_str pf c @ [nl]) cs)"

definition export_report :: "platform \<Rightarrow> string \<Rightarrow> NetworkMonitor \<Rightarrow> string" where
  "export_report pf generated m =
     (let email_conns = get_smtp_connections m @ get_imap_connections m;
          suspicious = get_suspicious_connections m
      in ''=== EMAIL INVESTIGATION TOOL - NETWORK MONITORING REPORT ==='' @ [nl] @
         ''Generated: '' @ generated @ [nl] @
         ''Process PID: '' @ str_int (pid m) @ [nl] @
         ''Log File: '' @ log_file_path m @ [nl, nl] @
         ''=== STATISTICS ==='' @ [nl] @
         ''Total connections: '' @ str_int (total_connections (stats m)) @ [nl] @
         ''SMTP connections: '' @ str_int (smtp_connections (stats m)) @ [nl] @
         ''IMAP connections: '' @ str_int (imap_connections (stats m)) @ [nl] @
         ''DNS queries: '' @ str_int (dns_queries (stats m)) @ [nl] @
         ''Other connections: '' @ str_int (other_connections (stats m)) @ [nl] @
         ''Suspicious connections: '' @ str_int (suspicious_connections (stats m)) @ [nl, nl] @
         ''=== EMAIL SERVER CONNECTIONS ==='' @ [nl] @
         write_conns pf email_conns @
         (if email_conns = [] then ''No email server connections detected.'' @ [nl] else []) @
         [nl] @ ''=== SUSPICIOUS CONNECTIONS ==='' @ [nl] @
         write_conns pf suspicious @
         (if suspicious = [] then ''No suspicious connections detected.'' @ [nl] else []) @
         [nl] @ ''=== ALL CONNECTIONS ==='' @ [nl] @
         write_conns pf (connections m))"


text \<open>
  The states a monitor object can be in: built by \<open>__init__\<close>, then changed by
  \<open>start_monitoring\<close>, \<open>stop_monitoring\<close>, the loop body on one sampled connection, and
  the loop's exception handler, in any order and under any environment.
\<close>

inductive reachable :: "platform \<Rightarrow> NetworkMonitor \<Rightarrow> bool" for pf :: platform where
  r_init: "reachable pf (init_monitor path p)"
| r_start: "reachable pf m \<Longrightarrow> reachable pf (fst (start_monitoring pname m))"
| r_stop: "reachable pf m \<Longrightarrow> reachable pf (stop_monitoring m)"
| r_observe: "reachable pf m \<Longrightarrow> reachable pf (fst (observe pf env conn m))"
| r_handler: "reachable pf m \<Longrightarrow> reachable pf (fst (loop_handler pf e m))"

text \<open>The three port classes that \<open>_categorize_connection\<close> tests before its \<open>else\<close>.\<close>

definition other_class :: "int \<Rightarrow> bool" where
  "other_class rport = (rport \<notin> set [25, 587, 465, 2525] \<and> rport \<notin> set [993, 143] \<and> rport \<noteq> 53)"

text \<open>Reading a report back: its lines, and the lines between one heading and the next.\<close>

fun split_on_acc :: "char \<Rightarrow> string \<Rightarrow> string \<Rightarrow> string list" where
  "split_on_acc d cur [] = [cur]"
| "split_on_acc d cur (c # cs) =
     (if c = d then cur # split_on_acc d [] cs else split_on_acc d (cur @ [c]) cs)"

text \<open>\<open>s.split(d)\<close> for a one-character separator.\<close>

definition split_on :: "char \<Rightarrow> string \<Rightarrow> string list" where
  "split_on d s = split_on_acc d [] s"

text \<open>The lines of a text whose lines end in a newline.\<close>

definition report_lines :: "string \<Rightarrow> string list" where
  "report_lines s = (let ls = split_on nl s in if last ls = [] then butlast ls else ls)"

definition is_heading :: "string \<Rightarrow> bool" where
  "is_heading l = (startswith ''=== '' l \<and> startswith (rev '' ==='') (rev l))"

definition section_body :: "string \<Rightarrow> string list \<Rightarrow> string list" where
  "section_body h ls = takeWhile (\<lambda>l. \<not> is_heading l) (drop 1 (dropWhile (\<lambda>l. l \<noteq> h) ls))"

definition headings :: "string list \<Rightarrow> string list" where
  "headings ls = filter is_heading ls"

definition placeholder_line :: "string \<Rightarrow> bool" where
  "placeholder_line l = (startswith ''No '' l \<and> startswith (rev '' detected.'') (rev l))"


text \<open>The record that the loop body builds for a sampled connection.\<close>

definition record_of :: "tick_env \<Rightarrow> sconn \<Rightarrow> string \<Rightarrow> NetworkConnection" where
  "record_of env conn name =
     \<lparr> timestamp = current_time env,
       local_addr = (case laddr conn of Addr ip p \<Rightarrow> ip | NoAddr \<Rightarrow> ''unknown''),
       local_port = (case laddr conn of Addr ip p \<Rightarrow> p | NoAddr \<Rightarrow> 0),
       remote_addr = (case raddr conn of Addr ip p \<Rightarrow> ip | NoAddr \<Rightarrow> ''unknown''),
       remote_port = (case raddr conn of Addr ip p \<Rightarrow> p | NoAddr \<Rightarrow> 0),
       protocol = (if conn_type conn = SOCK_STREAM then ''TCP'' else ''UDP''),
       status = conn_status conn, process_name = name \<rparr>"

text \<open>A concrete platform, one sampled connection and one session, for evaluation.\<close>

definition demo_platform :: platform where
  "demo_platform = \<lparr> strftime = (\<lambda>t. ''12:00:00''),
     str_addr = (\<lambda>a. case a of NoAddr \<Rightarrow> ''()''
                  | Addr ip p \<Rightarrow> ''addr(ip='' @ ip @ '', port='' @ str_int p @ '')''),
     str_exc = (\<lambda>e. ''error'') \<rparr>"

definition demo_conn :: "string \<Rightarrow> int \<Rightarrow> sconn" where
  "demo_conn ip p = \<lparr> conn_type = SOCK_STREAM, laddr = Addr ''10.0.0.2'' 50000,
     raddr = Addr ip p, conn_status = ''ESTABLISHED'' \<rparr>"

definition demo_env :: "sconn list \<Rightarrow> tick_env" where
  "demo_env cs = \<lparr> current_time = 0, proc_connections = Inr cs,
     proc_name = Inr ''python'', gethostbyaddr = (\<lambda>a. Inl herror) \<rparr>"

definition demo_fresh :: NetworkMonitor where
  "demo_fresh = init_monitor ''logs/network_traffic_0.log'' 4242"

definition demo_first_session :: NetworkMonitor where
  "demo_first_session =
     stop_monitoring
       (fst (monitor_tick demo_platform (demo_env [demo_conn ''93.184.216.34'' 9999])
          (fst (start_monitoring (Inr ''python'') demo_fresh))))"

definition demo_second_start :: NetworkMonitor where
  "demo_second_start = fst (start_monitoring (Inr ''python'') demo_first_session)"

section \<open>network_analyzer.py: the diagnostics engine\<close>

subsection \<open>String operations of the trace parser\<close>

text \<open>\<open>s.strip()\<close>.\<close>

definition strip :: "string \<Rightarrow> string" where
  "strip s = rev (dropWhile is_space (rev (dropWhile is_space s)))"

fun split_ws_acc :: "string \<Rightarrow> string \<Rightarrow> string list" where
  "split_ws_acc cur [] = (if cur = [] then [] else [cur])"
| "split_ws_acc cur (c # cs) =
     (if is_space c then (if cur = [] then split_ws_acc [] cs else cur # split_ws_acc [] cs)
      else split_ws_acc (cur @ [c]) cs)"

text \<open>\<open>s.split()\<close>: the maximal runs of non-whitespace characters.\<close>

definition split_ws :: "string \<Rightarrow> string list" where
  "split_ws s = split_ws_acc [] s"

definition digit_val :: "char \<Rightarrow> nat" where
  "digit_val c = of_char c - 48"

text \<open>
  \<open>int(s)\<close> in base 10; \<open>None\<close> is the \<open>ValueError\<close>. Surrounding whitespace is
  dropped, one sign is allowed, and the digits may be grouped by single underscores.
  The interpreter's limit on the number of digits of a literal is not modelled.
\<close>

fun int_body :: "bool \<Rightarrow> nat \<Rightarrow> string \<Rightarrow> nat option" where
  "int_body prev acc [] = (if prev then Some acc else None)"
| "int_body prev acc (c # cs) =
     (if is_digit c then int_body True (acc * 10 + digit_val c) cs
      else if c = CHR ''_'' \<and> prev then int_body False acc cs
      else None)"

definition py_int :: "string \<Rightarrow> int option" where
  "py_int s =
     (case strip s of
        [] \<Rightarrow> None
      | c # cs \<Rightarrow>
          if c = CHR ''-'' then map_option (\<lambda>n. - int n) (int_body False 0 cs)
          else if c = CHR ''+'' then map_option int (int_body False 0 cs)
          else map_option int (int_body False 0 (c # cs)))"

text \<open>
  \<open>float(s)\<close> for the strings the timing pattern can capture (digits, an optional
  point, digits), as the exact decimal value.
\<close>

definition digits_val :: "string \<Rightarrow> nat" where
  "digits_val s = foldl (\<lambda>a c. a * 10 + digit_val c) 0 s"

definition py_float :: "string \<Rightarrow> rat" where
  "py_float s =
     (let ip = takeWhile is_digit s;
          fp = drop 1 (dropWhile is_digit s)
      in of_nat (digits_val ip) + of_nat (digits_val fp) / 10 ^ length fp)"

subsection \<open>The regular expressions\<close>

text \<open>
  The four patterns of \<open>traceroute\<close> are sequences of single characters and character
  classes, each taken once, optionally, or repeated greedily, around one capturing group.
  \<open>item_rems\<close> lists what can remain of the input after one item, in the order in which
  a backtracking matcher tries the alternatives (longest first); \<open>rx_rems\<close> does the same
  for a sequence of items.
\<close>

datatype cclass = Digit | Space | NonSpace | Lit char

fun in_class :: "cclass \<Rightarrow> char \<Rightarrow> bool" where
  "in_class Digit c = is_digit c"
| "in_class Space c = is_space c"
| "in_class NonSpace c = (\<not> is_space c)"
| "in_class (Lit d) c = (c = d)"

datatype rx_item = One cclass | Opt cclass | Star cclass | Plus cclass

fun star_rems :: "cclass \<Rightarrow> string \<Rightarrow> string list" where
  "star_rems k [] = [[]]"
| "star_rems k (c # cs) = (if in_class k c then star_rems k cs @ [c # cs] else [c # cs])"

fun item_rems :: "rx_item \<Rightarrow> string \<Rightarrow> string list" where
  "item_rems (One k) [] = []"
| "item_rems (One k) (c # cs) = (if in_class k c then [cs] else [])"
| "item_rems (Opt k) [] = [[]]"
| "item_rems (Opt k) (c # cs) = (if in_class k c then [cs, c # cs] else [c # cs])"
| "item_rems (Star k) s = star_rems k s"
| "item_rems (Plus k) [] = []"
| "item_rems (Plus k) (c # cs) = (if in_class k c then star_rems k cs else [])"

fun rx_rems :: "rx_item list \<Rightarrow> string \<Rightarrow> string list" where
  "rx_rems [] s = [s]"
| "rx_rems (i # is) s = concat (map (rx_rems is) (item_rems i s))"

fun find_first :: "('a \<Rightarrow> 'b option) \<Rightarrow> 'a list \<Rightarrow> 'b option" where
  "find_first f [] = None"
| "find_first f (x # xs) = (case f x of Some y \<Rightarrow> Some y | None \<Rightarrow> find_first f xs)"

text \<open>A pattern is what stands before the group, the group, and what stands after it.\<close>

type_synonym pattern = "rx_item list \<times> rx_item list \<times> rx_item list"

text \<open>The first successful match that starts at the head of \<open>s\<close>; its value is group 1.\<close>

definition match_here :: "pattern \<Rightarrow> string \<Rightarrow> string option" where
  "match_here pat s =
     (case pat of (pre, grp, post) \<Rightarrow>
        find_first (\<lambda>r1.
          find_first (\<lambda>r2.
            if rx_rems post r2 \<noteq> [] then Some (take (length r1 - length r2) r1) else None)
            (rx_rems grp r1))
          (rx_rems pre s))"

text \<open>\<open>re.search(pat, s)\<close>: the leftmost start position with a match; \<open>group(1)\<close> of it.\<close>

fun re_search :: "pattern \<Rightarrow> string \<Rightarrow> string option" where
  "re_search pat [] = match_here pat []"
| "re_search pat (c # cs) =
     (case match_here pat (c # cs) of Some g \<Rightarrow> Some g | None \<Rightarrow> re_search pat cs)"

definition dotted_quad :: "rx_item list" where
  "dotted_quad = [Plus Digit, One (Lit CHR ''.''), Plus Digit, One (Lit CHR ''.''),
                  Plus Digit, One (Lit CHR ''.''), Plus Digit]"

text \<open>\<open>r'\(([0-9]+\.[0-9]+\.[0-9]+\.[0-9]+)\)'\<close>\<close>

definition paren_ip_pattern :: pattern where
  "paren_ip_pattern = ([One (Lit CHR ''('')], dotted_quad, [One (Lit CHR '')'')])"

text \<open>\<open>r'\s+([^\s]+)\s+\(' + re.escape(ip_addr) + r'\)'\<close>\<close>

definition hostname_pattern :: "string \<Rightarrow> pattern" where
  "hostname_pattern ip = ([Plus Space], [Plus NonSpace],
     [Plus Space, One (Lit CHR ''('')] @ map (\<lambda>c. One (Lit c)) ip @ [One (Lit CHR '')'')])"

text \<open>\<open>r'\s+([0-9]+\.[0-9]+\.[0-9]+\.[0-9]+)'\<close>\<close>

definition bare_ip_pattern :: pattern where
  "bare_ip_pattern = ([Plus Space], dotted_quad, [])"

text \<open>\<open>r'(\d+\.?\d*)\s*ms'\<close>\<close>

definition time_pattern :: pattern where
  "time_pattern = ([], [Plus Digit, Opt (Lit CHR ''.''), Star Digit],
     [Star Space, One (Lit CHR ''m''), One (Lit CHR ''s'')])"

subsection \<open>Records of the module\<close>

record DNSResult =
  hostname :: string
  ip_addresses :: "string list"
  mx_records :: "(int \<times> string) list"
  response_time :: rat
  authoritative :: bool
  dnssec_valid :: bool

record TracerouteHop =
  hop_number :: int
  ip_address :: string
  hostname :: "string option"
  response_time :: rat
  is_timeout :: bool

record NetworkPath =
  target_host :: string
  target_ip :: string
  hops :: "TracerouteHop list"
  total_hops :: int
  packet_loss :: rat
  avg_rtt :: rat
  isp_detected :: "string option"

record PortScanResult =
  port :: int
  is_open :: bool
  response_time :: "rat option"
  service :: "string option"

record ISPAnalysis =
  isp_name :: "string option"
  suspicious_behavior :: "string list"
  blocked_ports :: "int list"
  throttling_detected :: bool
  dpi_detected :: bool
  connection_resets :: int
  recommendations :: "string list"

text \<open>
  What the engine meets outside the program. Each field is the outcome of one library
  call: \<open>Inl\<close> an exception raised by it, \<open>Inr\<close> its result.
  \<^item> \<open>resolve_A h\<close>, \<open>resolve_MX h\<close>: the resolver's answers, already rendered
    (\<open>str(rdata)\<close>, and the pair of preference and \<open>str(rdata.exchange)\<close>);
  \<^item> \<open>dns_seconds\<close>: the wall-clock time between the two readings in \<open>resolve_dns\<close>;
  \<^item> \<open>run_traceroute cmd\<close>: \<open>subprocess.run(cmd, ...).stdout\<close>;
  \<^item> \<open>gethostbyname h\<close>; \<open>connect_ex h p\<close>: making a socket and \<open>connect_ex((h, p))\<close>;
    \<open>connect_seconds h p\<close>: the time that probe took;
  \<^item> \<open>dpi_exchange h p\<close>: connect, send and receive of the DPI probe, and the seconds
    they took;
  \<^item> \<open>format_1f\<close>: the rendering \<open>f"{x:.1f}"\<close> of a float.
\<close>

record net_env =
  resolve_A :: "string \<Rightarrow> py_exc + string list"
  resolve_MX :: "string \<Rightarrow> py_exc + (int \<times> string) list"
  dns_seconds :: rat
  run_traceroute :: "string list \<Rightarrow> py_exc + string"
  gethostbyname :: "string \<Rightarrow> py_exc + string"
  connect_ex :: "string \<Rightarrow> int \<Rightarrow> py_exc + int"
  connect_seconds :: "string \<Rightarrow> int \<Rightarrow> rat"
  dpi_exchange :: "string \<Rightarrow> int \<Rightarrow> py_exc + rat"
  format_1f :: "rat \<Rightarrow> string"

subsection \<open>resolve_dns\<close>

text \<open>
  The method with its cache, \<open>self.analysis_cache\<close>. The result is a sum so that an
  exception leaving the method would be a value \<open>Inl\<close>. Each of the two inner
  \<open>try\<close> blocks has a bare \<open>except: pass\<close>.
\<close>

definition resolve_dns ::
  "net_env \<Rightarrow> (string \<rightharpoonup> DNSResult) \<Rightarrow> string \<Rightarrow>
     (py_exc + DNSResult) \<times> (string \<rightharpoonup> DNSResult)" where
  "resolve_dns env cache h =
     (let a_records = (case resolve_A env h of Inr answers \<Rightarrow> answers | Inl e \<Rightarrow> []);
          mx = (case resolve_MX env h of Inr answers \<Rightarrow> answers | Inl e \<Rightarrow> []);
          auth = (length a_records > 0);
          result = \<lparr> DNSResult.hostname = h, ip_addresses = a_records, mx_records = mx,
                     DNSResult.response_time = dns_seconds env, authoritative = auth,
                     dnssec_valid = False \<rparr>
      in (Inr result, cache(h \<mapsto> result)))"

subsection \<open>traceroute\<close>

text \<open>
  The keyword argument \<open>is_timeout=is_timeout\<close> of the hop built inside the parsing loop
  reads a name that is bound nowhere: not in the function, not in the module, not in
  the builtins. Evaluating it raises \<open>NameError\<close>.
\<close>

definition is_timeout_name :: "py_exc + bool" where
  "is_timeout_name = Inl NameError"

text \<open>The state of the parsing loop, and how one pass through its body ends.\<close>

record parse_state =
  hops_acc :: "TracerouteHop list"
  consecutive_timeouts :: int

datatype ctrl = Continue | Break | Raise py_exc

text \<open>
  The \<open>(IP)\<close> pattern first and, with it, the token before the parenthesis; otherwise a
  bare address. The result is \<open>ip_addr\<close> and \<open>hostname\<close>, \<open>None\<close> when no address is found.
\<close>

definition extract_ip :: "string \<Rightarrow> (string \<times> string option) option" where
  "extract_ip l =
     (case re_search paren_ip_pattern l of
        Some ip \<Rightarrow> Some (ip, re_search (hostname_pattern ip) l)
      | None \<Rightarrow>
          (case re_search bare_ip_pattern l of
             Some ip \<Rightarrow> Some (ip, None)
           | None \<Rightarrow> None))"

text \<open>The timing: the first \<open>ms\<close> value on the line, \<open>0.0\<close> without one.\<close>

definition extract_time :: "string \<Rightarrow> rat" where
  "extract_time l = (case re_search time_pattern l of Some g \<Rightarrow> py_float g | None \<Rightarrow> 0)"

text \<open>
  The body of \<open>for line in lines\<close>. A \<open>ValueError\<close> of \<open>int(parts[0])\<close> is caught by the
  inner handler, which continues with the next line; the \<open>NameError\<close> is not.
\<close>

definition parse_line :: "string \<Rightarrow> parse_state \<Rightarrow> parse_state \<times> ctrl" where
  "parse_line l st =
     (if strip l = [] then (st, Continue)
      else
        let parts = split_ws (strip l) in
        if length parts \<ge> 2 then
          (case py_int (parts ! 0) of
             None \<Rightarrow> (st, Continue)
           | Some hop_num \<Rightarrow>
               if count_list l CHR ''*'' \<ge> 3 then
                 (let st1 = st\<lparr> consecutive_timeouts := consecutive_timeouts st + 1 \<rparr>
                  in if consecutive_timeouts st1 \<ge> 3 then (st1, Break) else (st1, Continue))
               else
                 (let st1 = st\<lparr> consecutive_timeouts := 0 \<rparr>
                  in case extract_ip l of
                       None \<Rightarrow> (st1, Continue)
                     | Some (ip_addr, host_opt) \<Rightarrow>
                         let rtt = extract_time l;
                             host = (case host_opt of Some hn \<Rightarrow> hn | None \<Rightarrow> ip_addr)
                         in (case is_timeout_name of
                               Inl e \<Rightarrow> (st1, Raise e)
                             | Inr b \<Rightarrow>
                                 (st1\<lparr> hops_acc := hops_acc st1 @
                                    [\<lparr> hop_number = hop_num, ip_address = ip_addr,
                                       hostname = Some host,
                                       TracerouteHop.response_time = rtt,
                                       is_timeout = b \<rparr>] \<rparr>, Continue))))
        else (st, Continue))"

text \<open>The \<open>for\<close> loop: \<open>break\<close> ends it, an exception leaves it.\<close>

fun parse_lines :: "string list \<Rightarrow> parse_state \<Rightarrow> parse_state \<times> py_exc option" where
  "parse_lines [] st = (st, None)"
| "parse_lines (l # ls) st =
     (case parse_line l st of
        (st', Continue) \<Rightarrow> parse_lines ls st'
      | (st', Break) \<Rightarrow> (st', None)
      | (st', Raise e) \<Rightarrow> (st', Some e))"

text \<open>\<open>result.stdout.strip().split('\n')[1:]\<close>\<close>

definition output_lines :: "string \<Rightarrow> string list" where
  "output_lines out = drop 1 (split_on nl (strip out))"

text \<open>
  The first \<open>try\<close> block of \<open>traceroute\<close>: the hops collected when it is left, whether at
  its end or through one of the three handlers, all of which \<open>pass\<close>.
\<close>

definition traced_hops :: "net_env \<Rightarrow> string \<Rightarrow> int \<Rightarrow> TracerouteHop list" where
  "traced_hops env tgt max_hops =
     (let st0 = \<lparr> hops_acc = [], consecutive_timeouts = 0 \<rparr>;
          cmd = [''traceroute'', ''-n'', ''-m'', str_int max_hops, ''-w'', ''1'', tgt]
      in case run_traceroute env cmd of
           Inl e \<Rightarrow> hops_acc st0
         | Inr out \<Rightarrow> hops_acc (fst (parse_lines (output_lines out) st0)))"

text \<open>The connectivity test that stands in when no hop was collected.\<close>

definition fallback_hops :: "net_env \<Rightarrow> string \<Rightarrow> TracerouteHop list \<Rightarrow> TracerouteHop list" where
  "fallback_hops env tgt hs =
     (if hs = [] then
        (case gethostbyname env tgt of
           Inl e \<Rightarrow> hs
         | Inr ip \<Rightarrow>
             (case connect_ex env ip 80 of
                Inl e \<Rightarrow> hs
              | Inr res \<Rightarrow>
                  if res = 0 then
                    hs @ [\<lparr> hop_number = 1, ip_address = ip, hostname = Some tgt,
                            TracerouteHop.response_time = connect_seconds env ip 80 * 1000,
                            is_timeout = False \<rparr>]
                  else hs))
      else hs)"

definition isp_patterns :: "(string \<times> string list) list" where
  "isp_patterns = [(''comcast'', [''comcast'', ''xfinity'']),
     (''verizon'', [''verizon'', ''fios'']),
     (''att'', [''att.net'', ''attdns'']),
     (''cox'', [''cox.net'']),
     (''charter'', [''charter'', ''spectrum'']),
     (''centurylink'', [''centurylink'', ''qwest''])]"

fun isp_of_hostname :: "(string \<times> string list) list \<Rightarrow> string \<Rightarrow> string option" where
  "isp_of_hostname [] hl = None"
| "isp_of_hostname ((isp, pats) # rest) hl =
     (if any_pattern_in pats hl then Some (upper isp) else isp_of_hostname rest hl)"

text \<open>\<open>_detect_isp_from_hops\<close>\<close>

fun detect_isp_from_hops :: "TracerouteHop list \<Rightarrow> string option" where
  "detect_isp_from_hops [] = None"
| "detect_isp_from_hops (hop # rest) =
     (case TracerouteHop.hostname hop of
        None \<Rightarrow> detect_isp_from_hops rest
      | Some hn \<Rightarrow>
          if hn = [] then detect_isp_from_hops rest
          else (case isp_of_hostname isp_patterns (lower hn) of
                  Some isp \<Rightarrow> Some isp
                | None \<Rightarrow> detect_isp_from_hops rest))"

text \<open>The statistics at the end of \<open>traceroute\<close>, from the final hop list.\<close>

definition path_of_hops :: "string \<Rightarrow> TracerouteHop list \<Rightarrow> NetworkPath" where
  "path_of_hops tgt hs =
     (let valid_hops = filter (\<lambda>hp. \<not> is_timeout hp) hs;
          avg = (if valid_hops \<noteq> []
                 then sum_list (map TracerouteHop.response_time valid_hops) /
                      of_nat (length valid_hops)
                 else 0);
          loss = (if hs \<noteq> []
                  then of_int (int (length hs) - int (length valid_hops)) /
                       of_nat (length hs) * 100
                  else 0)
      in \<lparr> target_host = tgt,
           target_ip = (if hs \<noteq> [] then ip_address (last hs) else []),
           hops = hs, total_hops = int (length hs), packet_loss = loss, avg_rtt = avg,
           isp_detected = detect_isp_from_hops hs \<rparr>)"

definition traceroute :: "net_env \<Rightarrow> string \<Rightarrow> int \<Rightarrow> NetworkPath" where
  "traceroute env tgt max_hops =
     path_of_hops tgt (fallback_hops env tgt (traced_hops env tgt max_hops))"

subsection \<open>scan_smtp_ports and analyze_isp_interference\<close>

definition get_smtp_service_name :: "int \<Rightarrow> string" where
  "get_smtp_service_name p =
     (case map_of [(25, ''SMTP''), (465, ''SMTPS (SSL)''), (587, ''SMTP (STARTTLS)''),
                   (2525, ''SMTP (Alternative)'')] p of
        Some v \<Rightarrow> v
      | None \<Rightarrow> ''Port '' @ str_int p)"

definition smtp_ports :: "int list" where
  "smtp_ports = [25, 465, 587, 2525]"

definition scan_port :: "net_env \<Rightarrow> string \<Rightarrow> int \<Rightarrow> PortScanResult" where
  "scan_port env h p =
     (case connect_ex env h p of
        Inr res \<Rightarrow>
          \<lparr> port = p, is_open = (res = 0),
            PortScanResult.response_time =
              (if res = 0 then Some (connect_seconds env h p) else None),
            service = Some (get_smtp_service_name p) \<rparr>
      | Inl e \<Rightarrow>
          \<lparr> port = p, is_open = False, PortScanResult.response_time = None,
            service = Some (get_smtp_service_name p) \<rparr>)"

definition scan_smtp_ports :: "net_env \<Rightarrow> string \<Rightarrow> PortScanResult list" where
  "scan_smtp_ports env h = map (scan_port env h) smtp_ports"

text \<open>\<open>_detect_dpi_signatures\<close>: any exception is a negative result.\<close>

definition detect_dpi_signatures :: "net_env \<Rightarrow> string \<Rightarrow> int \<Rightarrow> bool" where
  "detect_dpi_signatures env h p =
     (case dpi_exchange env h p of Inr secs \<Rightarrow> secs > 5 | Inl e \<Rightarrow> False)"

text \<open>The first loop of \<open>analyze_isp_interference\<close>, over the scan results.\<close>

fun collect_blocked :: "PortScanResult list \<Rightarrow> string list \<times> int list \<Rightarrow> string list \<times> int list" where
  "collect_blocked [] acc = acc"
| "collect_blocked (r # rs) (sb, bp) =
     (if \<not> is_open r then
        collect_blocked rs
          (if port r = 25 then sb @ [''Port 25 blocked (common ISP practice)''] else sb,
           bp @ [port r])
      else collect_blocked rs (sb, bp))"

definition analyze_isp_interference :: "net_env \<Rightarrow> string \<Rightarrow> int \<Rightarrow> ISPAnalysis" where
  "analyze_isp_interference env h p =
     (let port_results = scan_smtp_ports env h;
          (sb0, blocked) = collect_blocked port_results ([], []);
          rec0 = (if 25 \<in> set blocked then [''Use port 587 or 465 instead of port 25'']
                  else []);
          network_path = traceroute env h 15;
          sb1 = (if packet_loss network_path > 5
                 then sb0 @ [''High packet loss: '' @
                             format_1f env (packet_loss network_path) @ ''%'']
                 else sb0);
          sb2 = (if avg_rtt network_path > 200
                 then sb1 @ [''High latency: '' @
                             format_1f env (avg_rtt network_path) @ ''ms'']
                 else sb1);
          comcast = (case isp_detected network_path of
                       None \<Rightarrow> False
                     | Some isp \<Rightarrow> isp \<noteq> [] \<and> str_in ''comcast'' (lower isp));
          sb3 = (if comcast
                 then sb2 @ [''Comcast detected - known for email restrictions'']
                 else sb2);
          rec1 = (if comcast
                  then rec0 @ [''Consider using VPN or alternative SMTP relay'']
                  else rec0);
          dpi = detect_dpi_signatures env h p;
          throttling = (length blocked > 1 \<or> packet_loss network_path > 2)
      in \<lparr> isp_name = isp_detected network_path, suspicious_behavior = sb3,
           blocked_ports = blocked, throttling_detected = throttling,
           dpi_detected = dpi, connection_resets = 0, recommendations = rec1 \<rparr>)"

text \<open>A connect probe failed: it raised, or \<open>connect_ex\<close> returned a non-zero code.\<close>

definition probe_failed :: "net_env \<Rightarrow> string \<Rightarrow> int \<Rightarrow> bool" where
  "probe_failed env h p = (case connect_ex env h p of Inr res \<Rightarrow> res \<noteq> 0 | Inl e \<Rightarrow> True)"

text \<open>
  The lines that the parsing loop examines: not blank, at least two tokens, and a first
  token that \<open>int\<close> accepts. Every other line is passed over with the state unchanged.
\<close>

definition hop_line :: "string \<Rightarrow> bool" where
  "hop_line l = (strip l \<noteq> [] \<and> length (split_ws (strip l)) \<ge> 2 \<and>
                 py_int (split_ws (strip l) ! 0) \<noteq> None)"

text \<open>
  A concrete environment for evaluation: the trace utility prints \<open>out\<close>, name
  resolution fails, every connect is refused, nothing answers the DPI probe.
\<close>

definition demo_net_env :: "string \<Rightarrow> net_env" where
  "demo_net_env out = \<lparr> resolve_A = (\<lambda>h. Inl OtherException),
     resolve_MX = (\<lambda>h. Inl OtherException), dns_seconds = 0,
     run_traceroute = (\<lambda>cmd. Inr out), gethostbyname = (\<lambda>h. Inl gaierror),
     connect_ex = (\<lambda>h p. Inr 111), connect_seconds = (\<lambda>h p. 0),
     dpi_exchange = (\<lambda>h p. Inl OtherException), format_1f = (\<lambda>x. ''0.0'') \<rparr>"

definition demo_trace_line :: string where
  "demo_trace_line = '' 1  gw1 (93.184.216.34)  12.3 ms''"

definition demo_trace_output :: string where
  "demo_trace_output =
     ''traceroute to example.com (93.184.216.34), 15 hops max'' @ [nl] @ demo_trace_line @ [nl]"

text \<open>
  A second environment: the trace utility is missing, the target resolves, and the
  connect to port 80 succeeds after 15 milliseconds.
\<close>

definition demo_fallback_env :: net_env where
  "demo_fallback_env = \<lparr> resolve_A = (\<lambda>h. Inr [''93.184.216.34'']),
     resolve_MX = (\<lambda>h. Inl OtherException), dns_seconds = 0,
     run_traceroute = (\<lambda>cmd. Inl FileNotFoundError),
     gethostbyname = (\<lambda>h. Inr ''93.184.216.34''),
     connect_ex = (\<lambda>h p. Inr (if p = 80 then 0 else 111)),
     connect_seconds = (\<lambda>h p. 3 / 200),
     dpi_exchange = (\<lambda>h p. Inl OtherException), format_1f = (\<lambda>x. ''0.0'') \<rparr>"

definition parse_start :: parse_state where
  "parse_start = \<lparr> hops_acc = [], consecutive_timeouts = 0 \<rparr>"



text \<open>A hop list with two answering hops and a timeout hop between them.\<close>

definition demo_hops :: "TracerouteHop list" where
  "demo_hops =
     [\<lparr> hop_number = 1, ip_address = ''10.0.0.1'', hostname = Some ''gw1'',
        TracerouteHop.response_time = 10, is_timeout = False \<rparr>,
      \<lparr> hop_number = 2, ip_address = ''10.0.0.2'', hostname = None,
        TracerouteHop.response_time = 0, is_timeout = True \<rparr>,
      \<lparr> hop_number = 3, ip_address = ''93.184.216.34'', hostname = Some ''example.com'',
        TracerouteHop.response_time = 20, is_timeout = False \<rparr>]"

text \<open>The records that \<open>_categorize_connection\<close> counts as suspicious.\<close>

definition counted :: "NetworkMonitor \<Rightarrow> NetworkConnection list" where
  "counted m =
     filter (\<lambda>c. other_class (remote_port c) \<and> is_suspicious_connection c) (connections m)"

section \<open>Properties of the connection sampler\<close>

subsection \<open>The accessor's loop\<close>

lemma collect_suspicious_filter:
  "collect_suspicious acc cs = acc @ filter is_suspicious_connection cs"
  by (induction cs arbitrary: acc) simp_all

lemma get_suspicious_filter:
  "get_suspicious_connections m = filter is_suspicious_connection (connections m)"
  by (simp add: get_suspicious_connections_def collect_suspicious_filter)

subsection \<open>What each operation leaves unchanged\<close>

lemma stats_logger [simp]: "stats (logger lvl msg m) = stats m"
  and connections_logger [simp]: "connections (logger lvl msg m) = connections m"
  and known_logger [simp]: "known_connections (logger lvl msg m) = known_connections m"
  and monitoring_logger [simp]: "monitoring (logger lvl msg m) = monitoring m"
  by (simp_all add: logger_def)

lemma log_connection_keeps [simp]:
  "stats (fst (log_connection env c m)) = stats m"
  "connections (fst (log_connection env c m)) = connections m"
  "known_connections (fst (log_connection env c m)) = known_connections m"
  "monitoring (fst (log_connection env c m)) = monitoring m"
  by (simp_all add: log_connection_def Let_def split: sum.splits)

lemma categorize_keeps [simp]:
  "connections (categorize_connection pf c rp m) = connections m"
  "known_connections (categorize_connection pf c rp m) = known_connections m"
  "monitoring (categorize_connection pf c rp m) = monitoring m"
  by (simp_all add: categorize_connection_def Let_def)

lemma start_keeps [simp]:
  "stats (fst (start_monitoring pname m)) = stats m"
  "connections (fst (start_monitoring pname m)) = connections m"
  "known_connections (fst (start_monitoring pname m)) = known_connections m"
  by (simp_all add: start_monitoring_def Let_def split: sum.splits)

lemma stop_keeps [simp]:
  "stats (stop_monitoring m) = stats m"
  "connections (stop_monitoring m) = connections m"
  "known_connections (stop_monitoring m) = known_connections m"
  by (simp_all add: stop_monitoring_def Let_def)

lemma handler_keeps [simp]:
  "stats (fst (loop_handler pf e m)) = stats m"
  "connections (fst (loop_handler pf e m)) = connections m"
  "known_connections (fst (loop_handler pf e m)) = known_connections m"
  by (simp_all add: loop_handler_def)

subsection \<open>The three ways through the loop body\<close>

lemma observe_skip:
  "conn_status conn = CONN_NONE \<or> conn_id pf conn \<in> known_connections m \<Longrightarrow>
     observe pf env conn m = (m, None)"
  by (auto simp add: observe_def)

lemma observe_new:
  assumes "conn_status conn \<noteq> CONN_NONE" and "conn_id pf conn \<notin> known_connections m"
    and "proc_name env = Inr name"
  shows "observe pf env conn m =
     log_connection env (record_of env conn name)
       (categorize_connection pf (record_of env conn name)
          (remote_port (record_of env conn name))
          (m\<lparr> known_connections := insert (conn_id pf conn) (known_connections m),
              connections := connections m @ [record_of env conn name],
              stats := (stats m)\<lparr> total_connections := total_connections (stats m) + 1 \<rparr> \<rparr>))"
  using assms by (simp add: observe_def record_of_def Let_def)

lemma observe_raise:
  assumes "conn_status conn \<noteq> CONN_NONE" and "conn_id pf conn \<notin> known_connections m"
    and "proc_name env = Inl e"
  shows "observe pf env conn m =
     (m\<lparr> known_connections := insert (conn_id pf conn) (known_connections m) \<rparr>, Some e)"
  using assms by (simp add: observe_def Let_def)

lemma observe_new_stats:
  assumes "conn_status conn \<noteq> CONN_NONE" and "conn_id pf conn \<notin> known_connections m"
    and "proc_name env = Inr name"
  shows "stats (fst (observe pf env conn m)) =
           stats (categorize_connection pf (record_of env conn name)
             (remote_port (record_of env conn name))
             (m\<lparr> stats := (stats m)\<lparr> total_connections := total_connections (stats m) + 1 \<rparr> \<rparr>))"
    and "connections (fst (observe pf env conn m)) = connections m @ [record_of env conn name]"
  by (simp_all add: observe_new [OF assms] categorize_connection_def Let_def)




subsection \<open>The demonstration session, evaluated\<close>

lemma demo_conn_facts:
  "conn_status (demo_conn ip p) \<noteq> CONN_NONE"
  "raddr (demo_conn ip p) = Addr ip p"
  "proc_name (demo_env cs) = Inr ''python''"
  "proc_connections (demo_env cs) = Inr cs"
  by (simp_all add: demo_conn_def demo_env_def CONN_NONE_def)

lemma demo_fresh_fields:
  "connections demo_fresh = []" "pid demo_fresh = 4242"
  "log_file_path demo_fresh = ''logs/network_traffic_0.log''"
  "stats demo_fresh = NetworkStats_default"
  "known_connections demo_fresh = {}"
  by (simp_all add: demo_fresh_def init_monitor_def)

lemma demo_observe_tick:
  assumes "conn_id demo_platform (demo_conn ip p) \<notin> known_connections m"
  shows "fst (monitor_tick demo_platform (demo_env [demo_conn ip p]) m) =
         fst (observe demo_platform (demo_env [demo_conn ip p]) (demo_conn ip p) m)"
proof -
  have "snd (observe demo_platform (demo_env [demo_conn ip p]) (demo_conn ip p) m) = None"
    by (simp add: observe_new [OF demo_conn_facts(1) assms demo_conn_facts(3)]
          log_connection_def Let_def)
       (simp add: demo_env_def)
  then show ?thesis
    by (cases "observe demo_platform (demo_env [demo_conn ip p]) (demo_conn ip p) m")
       (simp add: monitor_tick_def demo_conn_facts)
qed

lemma demo_second_start_state:
  "connections demo_second_start =
     [record_of (demo_env [demo_conn ''93.184.216.34'' 9999])
        (demo_conn ''93.184.216.34'' 9999) ''python''] \<and>
   known_connections demo_second_start =
     {conn_id demo_platform (demo_conn ''93.184.216.34'' 9999)} \<and>
   total_connections (stats demo_second_start) = 1"
proof -
  let ?c = "demo_conn ''93.184.216.34'' 9999"
  let ?m1 = "fst (start_monitoring (Inr ''python'') demo_fresh)"
  have k: "conn_id demo_platform ?c \<notin> known_connections ?m1"
    by (simp add: demo_fresh_fields)
  note s = demo_conn_facts(1) [of "''93.184.216.34''" 9999]
  note n = demo_conn_facts(3) [of "[?c]"]
  show ?thesis
    by (simp add: demo_second_start_def demo_first_session_def demo_observe_tick [OF k]
        observe_new_stats [OF s k n] observe_new [OF s k n] categorize_connection_def Let_def)
       (simp add: demo_fresh_fields NetworkStats_default_def)
qed

lemma demo_first_session_idle: "\<not> monitoring demo_first_session"
  by (simp add: demo_first_session_def stop_monitoring_def Let_def)

subsection \<open>Starting a session\<close>

text \<open>
  Claim C2, as the code has it. \<open>start_monitoring\<close> on an idle monitor sets the running
  flag (and writes the start banner); the dedup set, the connection log and every
  counter are exactly what they were before the call. They are empty and zero only on
  a freshly built monitor, so they do carry over from an earlier session on the same
  object.
\<close>

theorem start_monitoring_keeps_session_state:
  "\<not> monitoring m \<Longrightarrow>
     monitoring (fst (start_monitoring pname m)) \<and>
     known_connections (fst (start_monitoring pname m)) = known_connections m \<and>
     connections (fst (start_monitoring pname m)) = connections m \<and>
     stats (fst (start_monitoring pname m)) = stats m"
  by (cases pname) (simp_all add: start_monitoring_def Let_def)

text \<open>The theorem at the second start of the demonstration session.\<close>

theorem start_monitoring_keeps_session_state_witness:
  "\<not> monitoring demo_first_session \<and>
   monitoring demo_second_start \<and>
   known_connections demo_second_start = known_connections demo_first_session \<and>
   connections demo_second_start = connections demo_first_session \<and>
   stats demo_second_start = stats demo_first_session"
  using demo_first_session_idle
    start_monitoring_keeps_session_state [OF demo_first_session_idle, of "Inr ''python''"]
  by (simp add: demo_second_start_def)

text \<open>
  Claim C2 as stated fails: a session that logged one connection is stopped, and after
  the next \<open>start_monitoring\<close> the log, the dedup set and the counters are not empty.
\<close>

theorem start_monitoring_clears_counterexample:
  "\<not> monitoring demo_first_session \<and>
   connections demo_second_start \<noteq> [] \<and>
   known_connections demo_second_start \<noteq> {} \<and>
   total_connections (stats demo_second_start) \<noteq> 0"
  using demo_second_start_state demo_first_session_idle by simp

subsection \<open>The report of an empty session\<close>

lemma str_int_0: "str_int 0 = ''0''"
  by (simp add: str_int_def str_nat.simps digit_char_def)

lemma str_int_4242: "str_int 4242 = ''4242''"
  by (simp add: str_int_def str_nat.simps digit_char_def)

lemma demo_report_lines:
  "report_lines (export_report demo_platform ''2024-01-01 00:00:00'' demo_fresh) =
   [''=== EMAIL INVESTIGATION TOOL - NETWORK MONITORING REPORT ==='',
    ''Generated: 2024-01-01 00:00:00'', ''Process PID: 4242'',
    ''Log File: logs/network_traffic_0.log'', [], ''=== STATISTICS ==='',
    ''Total connections: 0'', ''SMTP connections: 0'',
    ''IMAP connections: 0'', ''DNS queries: 0'', ''Other connections: 0'',
    ''Suspicious connections: 0'', [], ''=== EMAIL SERVER CONNECTIONS ==='',
    ''No email server connections detected.'', [],
    ''=== SUSPICIOUS CONNECTIONS ==='',
    ''No suspicious connections detected.'', [], ''=== ALL CONNECTIONS ==='']"
  by (simp add: export_report_def get_smtp_connections_def get_imap_connections_def
      get_suspicious_filter write_conns_def demo_fresh_fields
      NetworkStats_default_def str_int_0 str_int_4242 report_lines_def split_on_def)

text \<open>
  Claim C3, as the code has it. For a monitor with no logged connection the report is
  exactly the header, the STATISTICS section, the EMAIL SERVER CONNECTIONS section with
  the line \<open>No email server connections detected.\<close>, the SUSPICIOUS CONNECTIONS section
  with the line \<open>No suspicious connections detected.\<close>, and the heading of the ALL
  CONNECTIONS section, in this order; nothing follows that last heading.
\<close>

theorem export_report_empty_session:
  "connections m = [] \<Longrightarrow>
   export_report pf generated m =
     ''=== EMAIL INVESTIGATION TOOL - NETWORK MONITORING REPORT ==='' @ [nl] @
     ''Generated: '' @ generated @ [nl] @
     ''Process PID: '' @ str_int (pid m) @ [nl] @
     ''Log File: '' @ log_file_path m @ [nl, nl] @
     ''=== STATISTICS ==='' @ [nl] @
     ''Total connections: '' @ str_int (total_connections (stats m)) @ [nl] @
     ''SMTP connections: '' @ str_int (smtp_connections (stats m)) @ [nl] @
     ''IMAP connections: '' @ str_int (imap_connections (stats m)) @ [nl] @
     ''DNS queries: '' @ str_int (dns_queries (stats m)) @ [nl] @
     ''Other connections: '' @ str_int (other_connections (stats m)) @ [nl] @
     ''Suspicious connections: '' @ str_int (suspicious_connections (stats m)) @ [nl, nl] @
     ''=== EMAIL SERVER CONNECTIONS ==='' @ [nl] @
     ''No email server connections detected.'' @ [nl, nl] @
     ''=== SUSPICIOUS CONNECTIONS ==='' @ [nl] @
     ''No suspicious connections detected.'' @ [nl, nl] @
     ''=== ALL CONNECTIONS ==='' @ [nl]"
  by (simp add: export_report_def get_smtp_connections_def get_imap_connections_def
      get_suspicious_filter write_conns_def)

text \<open>The theorem at a freshly built monitor: the headings and the three section bodies.\<close>

theorem export_report_empty_session_witness:
  "connections demo_fresh = [] \<and>
   headings (report_lines (export_report demo_platform ''2024-01-01 00:00:00'' demo_fresh)) =
     [''=== EMAIL INVESTIGATION TOOL - NETWORK MONITORING REPORT ==='',
      ''=== STATISTICS ==='', ''=== EMAIL SERVER CONNECTIONS ==='',
      ''=== SUSPICIOUS CONNECTIONS ==='', ''=== ALL CONNECTIONS ===''] \<and>
   section_body ''=== EMAIL SERVER CONNECTIONS ===''
     (report_lines (export_report demo_platform ''2024-01-01 00:00:00'' demo_fresh)) =
     [''No email server connections detected.'', []] \<and>
   section_body ''=== SUSPICIOUS CONNECTIONS ===''
     (report_lines (export_report demo_platform ''2024-01-01 00:00:00'' demo_fresh)) =
     [''No suspicious connections detected.'', []]"
proof -
  note e = export_report_empty_session [OF demo_fresh_fields(1),
             of demo_platform "''2024-01-01 00:00:00''"]
  have rl: "report_lines (export_report demo_platform ''2024-01-01 00:00:00'' demo_fresh) =
   [''=== EMAIL INVESTIGATION TOOL - NETWORK MONITORING REPORT ==='',
    ''Generated: 2024-01-01 00:00:00'', ''Process PID: 4242'',
    ''Log File: logs/network_traffic_0.log'', [], ''=== STATISTICS ==='',
    ''Total connections: 0'', ''SMTP connections: 0'',
    ''IMAP connections: 0'', ''DNS queries: 0'', ''Other connections: 0'',
    ''Suspicious connections: 0'', [], ''=== EMAIL SERVER CONNECTIONS ==='',
    ''No email server connections detected.'', [],
    ''=== SUSPICIOUS CONNECTIONS ==='',
    ''No suspicious connections detected.'', [], ''=== ALL CONNECTIONS ==='']"
    by (simp add: e demo_fresh_fields NetworkStats_default_def str_int_0 str_int_4242
        report_lines_def split_on_def)
  show ?thesis
    by (simp add: rl demo_fresh_fields section_body_def headings_def is_heading_def)
qed

text \<open>
  Claim C3 as stated fails for the ALL CONNECTIONS section: in the report of a freshly
  built monitor no line follows its heading, so it holds no placeholder line.
\<close>

theorem export_all_section_placeholder_counterexample:
  "connections demo_fresh = [] \<and>
   section_body ''=== ALL CONNECTIONS ===''
     (report_lines (export_report demo_platform ''2024-01-01 00:00:00'' demo_fresh)) = [] \<and>
   \<not> list_ex placeholder_line
       (section_body ''=== ALL CONNECTIONS ===''
          (report_lines (export_report demo_platform ''2024-01-01 00:00:00'' demo_fresh)))"
  by (simp add: demo_report_lines demo_fresh_fields section_body_def)

subsection \<open>Deduplication\<close>










subsection \<open>Classification by remote port\<close>

text \<open>
  Claim C9. A newly sampled connection to remote port 9999 adds one to the total, to the
  other-class and to the suspicious counter, and its record satisfies the suspicion
  predicate. A newly sampled connection to remote port 587 adds one to the total and to
  the smtp-class counter only, and its record satisfies the suspicion predicate exactly
  when its remote address contains a watch pattern: the port rule never applies to it.
\<close>

theorem port_9999_suspicious_port_587_smtp:
  assumes "conn_status conn \<noteq> CONN_NONE" and "conn_id pf conn \<notin> known_connections m"
    and "proc_name env = Inr name"
  shows "(raddr conn = Addr ip 9999 \<longrightarrow>
            stats (fst (observe pf env conn m)) =
              (stats m)\<lparr> total_connections := total_connections (stats m) + 1,
                        other_connections := other_connections (stats m) + 1,
                        suspicious_connections := suspicious_connections (stats m) + 1 \<rparr> \<and>
            is_suspicious_connection (last (connections (fst (observe pf env conn m))))) \<and>
         (raddr conn = Addr ip 587 \<longrightarrow>
            stats (fst (observe pf env conn m)) =
              (stats m)\<lparr> total_connections := total_connections (stats m) + 1,
                        smtp_connections := smtp_connections (stats m) + 1 \<rparr> \<and>
            is_suspicious_connection (last (connections (fst (observe pf env conn m)))) =
              any_pattern_in suspicious_patterns (lower ip))"
proof (intro conjI impI)
  assume r: "raddr conn = Addr ip 9999"
  have s: "is_suspicious_connection (record_of env conn name)"
    by (simp add: is_suspicious_connection_def record_of_def r expected_services_def Let_def)
  show "stats (fst (observe pf env conn m)) =
      (stats m)\<lparr> total_connections := total_connections (stats m) + 1,
                other_connections := other_connections (stats m) + 1,
                suspicious_connections := suspicious_connections (stats m) + 1 \<rparr>"
    using s by (simp add: observe_new_stats [OF assms] categorize_connection_def Let_def)
       (simp add: record_of_def r)
  show "is_suspicious_connection (last (connections (fst (observe pf env conn m))))"
    using s by (simp add: observe_new_stats [OF assms])
next
  assume r: "raddr conn = Addr ip 587"
  show "stats (fst (observe pf env conn m)) =
      (stats m)\<lparr> total_connections := total_connections (stats m) + 1,
                smtp_connections := smtp_connections (stats m) + 1 \<rparr>"
    by (simp add: observe_new_stats [OF assms] categorize_connection_def Let_def)
       (simp add: record_of_def r)
  show "is_suspicious_connection (last (connections (fst (observe pf env conn m)))) =
      any_pattern_in suspicious_patterns (lower ip)"
    by (simp add: observe_new_stats [OF assms] is_suspicious_connection_def Let_def
        record_of_def r expected_services_def)
qed

lemma demo_ip_no_pattern:
  "\<not> any_pattern_in suspicious_patterns (lower ''93.184.216.34'')"
  by code_simp

text \<open>The theorem at a connection to port 9999 and at one to port 587, each sampled by a
  freshly built monitor.\<close>

theorem port_9999_suspicious_port_587_smtp_witness:
  "suspicious_connections (stats (fst (observe demo_platform
      (demo_env [demo_conn ''93.184.216.34'' 9999])
      (demo_conn ''93.184.216.34'' 9999) demo_fresh))) = 1 \<and>
   other_connections (stats (fst (observe demo_platform
      (demo_env [demo_conn ''93.184.216.34'' 9999])
      (demo_conn ''93.184.216.34'' 9999) demo_fresh))) = 1 \<and>
   smtp_connections (stats (fst (observe demo_platform
      (demo_env [demo_conn ''93.184.216.34'' 587])
      (demo_conn ''93.184.216.34'' 587) demo_fresh))) = 1 \<and>
   suspicious_connections (stats (fst (observe demo_platform
      (demo_env [demo_conn ''93.184.216.34'' 587])
      (demo_conn ''93.184.216.34'' 587) demo_fresh))) = 0 \<and>
   \<not> is_suspicious_connection (last (connections (fst (observe demo_platform
      (demo_env [demo_conn ''93.184.216.34'' 587])
      (demo_conn ''93.184.216.34'' 587) demo_fresh))))"
proof -
  have k: "conn_id demo_platform (demo_conn ''93.184.216.34'' p) \<notin> known_connections demo_fresh"
    for p by (simp add: demo_fresh_fields)
  have n: "proc_name (demo_env [demo_conn ''93.184.216.34'' p]) = Inr ''python''"
    for p by (simp add: demo_conn_facts)
  note a = port_9999_suspicious_port_587_smtp
             [OF demo_conn_facts(1) k [of 9999] n [of 9999], where ip = "''93.184.216.34''"]
  note b = port_9999_suspicious_port_587_smtp
             [OF demo_conn_facts(1) k [of 587] n [of 587], where ip = "''93.184.216.34''"]
  from a b demo_ip_no_pattern show ?thesis
    by (simp add: demo_conn_facts demo_fresh_fields NetworkStats_default_def)
qed

subsection \<open>The suspicious counter and the suspicious accessor\<close>

lemma categorize_suspicious:
  "suspicious_connections (stats (categorize_connection pf c rp m)) =
     suspicious_connections (stats m) +
       (if other_class rp \<and> is_suspicious_connection c then 1 else 0)"
  by (simp add: categorize_connection_def other_class_def Let_def)

lemma observe_counter:
  assumes "suspicious_connections (stats m) = int (length (counted m))"
  shows "suspicious_connections (stats (fst (observe pf env conn m))) =
           int (length (counted (fst (observe pf env conn m))))"
proof (cases "conn_status conn = CONN_NONE \<or> conn_id pf conn \<in> known_connections m")
  case True
  then show ?thesis using assms by (simp add: observe_skip)
next
  case False
  then have n: "conn_status conn \<noteq> CONN_NONE" "conn_id pf conn \<notin> known_connections m"
    by simp_all
  show ?thesis
  proof (cases "proc_name env")
    case (Inl e)
    show ?thesis using assms by (simp add: observe_raise [OF n Inl] counted_def)
  next
    case (Inr name)
    show ?thesis using assms
      by (simp add: observe_new_stats [OF n Inr] categorize_suspicious counted_def)
  qed
qed

lemma reachable_counter:
  "reachable pf m \<Longrightarrow> suspicious_connections (stats m) = int (length (counted m))"
proof (induction rule: reachable.induct)
  case (r_init path p)
  show ?case by (simp add: init_monitor_def NetworkStats_default_def counted_def)
next
  case (r_observe m env conn)
  then show ?case by (simp add: observe_counter)
qed (simp_all add: counted_def)

lemma counted_le: "length (counted m) \<le> length (get_suspicious_connections m)"
proof -
  have "counted m = filter (\<lambda>c. other_class (remote_port c)) (get_suspicious_connections m)"
    by (simp add: counted_def get_suspicious_filter conj_commute)
  then show ?thesis by simp
qed

text \<open>
  Claim C10. \<open>get_suspicious_connections\<close> returns, in log order, exactly the logged
  records that satisfy the suspicion predicate, whatever their class. In every reachable
  state of the monitor the suspicious counter is the number of logged other-class
  records that satisfy the predicate, and so it is at most the length of the accessor's
  result. A newly sampled connection on an SMTP, IMAP or DNS port never changes the
  counter; its record is appended to the accessor's result when its remote address
  contains a watch pattern, and does not appear there otherwise.
\<close>

theorem suspicious_counter_at_most_accessor:
  "get_suspicious_connections m = filter is_suspicious_connection (connections m) \<and>
   (reachable pf m \<longrightarrow>
      suspicious_connections (stats m) =
        int (length (filter (\<lambda>c. other_class (remote_port c) \<and> is_suspicious_connection c)
               (connections m))) \<and>
      suspicious_connections (stats m) \<le> int (length (get_suspicious_connections m))) \<and>
   (conn_status conn \<noteq> CONN_NONE \<and> conn_id pf conn \<notin> known_connections m \<and>
    proc_name env = Inr name \<and> raddr conn = Addr ip p \<and> \<not> other_class p \<longrightarrow>
      suspicious_connections (stats (fst (observe pf env conn m))) =
        suspicious_connections (stats m) \<and>
      get_suspicious_connections (fst (observe pf env conn m)) =
        get_suspicious_connections m @
          (if any_pattern_in suspicious_patterns (lower ip)
           then [record_of env conn name] else []))"
proof (intro conjI impI)
  show "get_suspicious_connections m = filter is_suspicious_connection (connections m)"
    by (rule get_suspicious_filter)
next
  assume r: "reachable pf m"
  show "suspicious_connections (stats m) =
        int (length (filter (\<lambda>c. other_class (remote_port c) \<and> is_suspicious_connection c)
               (connections m)))"
    using reachable_counter [OF r] by (simp add: counted_def)
  show "suspicious_connections (stats m) \<le> int (length (get_suspicious_connections m))"
    using reachable_counter [OF r] counted_le [of m] by simp
next
  assume h: "conn_status conn \<noteq> CONN_NONE \<and> conn_id pf conn \<notin> known_connections m \<and>
    proc_name env = Inr name \<and> raddr conn = Addr ip p \<and> \<not> other_class p"
  then have n: "conn_status conn \<noteq> CONN_NONE" "conn_id pf conn \<notin> known_connections m"
    "proc_name env = Inr name" by simp_all
  have rp: "remote_port (record_of env conn name) = p"
    "remote_addr (record_of env conn name) = ip"
    using h by (simp_all add: record_of_def)
  show "suspicious_connections (stats (fst (observe pf env conn m))) =
        suspicious_connections (stats m)"
    using h by (simp add: observe_new_stats [OF n] categorize_suspicious rp)
  have "p \<in> set [25, 587, 465, 2525, 993, 143, 53]"
    using h by (auto simp add: other_class_def)
  then have "is_suspicious_connection (record_of env conn name) =
      any_pattern_in suspicious_patterns (lower ip)"
    by (auto simp add: is_suspicious_connection_def rp Let_def expected_services_def)
  then show "get_suspicious_connections (fst (observe pf env conn m)) =
        get_suspicious_connections m @
          (if any_pattern_in suspicious_patterns (lower ip)
           then [record_of env conn name] else [])"
    by (simp add: get_suspicious_filter observe_new_stats [OF n])
qed

lemma demo_stats_host_pattern:
  "any_pattern_in suspicious_patterns (lower ''stats.example.net'')"
  by code_simp

text \<open>The theorem at a freshly built monitor that samples a DNS connection to an address
  containing the pattern \<open>stats\<close>, which appears in the accessor's result, and at one that
  samples an SMTP connection to a plain address, which does not.\<close>

theorem suspicious_counter_at_most_accessor_witness:
  "reachable demo_platform demo_fresh \<and>
   suspicious_connections (stats demo_fresh) \<le>
     int (length (get_suspicious_connections demo_fresh)) \<and>
   \<not> other_class 53 \<and> \<not> other_class 587 \<and>
   any_pattern_in suspicious_patterns (lower ''stats.example.net'') \<and>
   \<not> any_pattern_in suspicious_patterns (lower ''93.184.216.34'') \<and>
   suspicious_connections (stats (fst (observe demo_platform
      (demo_env [demo_conn ''stats.example.net'' 53])
      (demo_conn ''stats.example.net'' 53) demo_fresh))) = 0 \<and>
   get_suspicious_connections (fst (observe demo_platform
      (demo_env [demo_conn ''stats.example.net'' 53])
      (demo_conn ''stats.example.net'' 53) demo_fresh)) =
     [record_of (demo_env [demo_conn ''stats.example.net'' 53])
        (demo_conn ''stats.example.net'' 53) ''python''] \<and>
   connections (fst (observe demo_platform
      (demo_env [demo_conn ''93.184.216.34'' 587])
      (demo_conn ''93.184.216.34'' 587) demo_fresh)) =
     [record_of (demo_env [demo_conn ''93.184.216.34'' 587])
        (demo_conn ''93.184.216.34'' 587) ''python''] \<and>
   get_suspicious_connections (fst (observe demo_platform
      (demo_env [demo_conn ''93.184.216.34'' 587])
      (demo_conn ''93.184.216.34'' 587) demo_fresh)) = []"
proof -
  let ?c = "demo_conn ''stats.example.net'' 53"
  let ?d = "demo_conn ''93.184.216.34'' 587"
  have r: "reachable demo_platform demo_fresh"
    unfolding demo_fresh_def by (rule r_init)
  have k: "conn_id demo_platform (demo_conn ip p) \<notin> known_connections demo_fresh" for ip p
    by (simp add: demo_fresh_fields)
  have o: "\<not> other_class 53" "\<not> other_class 587" by (simp_all add: other_class_def)
  have e: "get_suspicious_connections demo_fresh = []"
    by (simp add: get_suspicious_filter demo_fresh_fields)
  have cd: "connections (fst (observe demo_platform (demo_env [?d]) ?d demo_fresh)) =
      [record_of (demo_env [?d]) ?d ''python'']"
    by (simp add: observe_new_stats [OF demo_conn_facts(1) k demo_conn_facts(3)]
        demo_fresh_fields)
  note t = suspicious_counter_at_most_accessor
             [where pf = demo_platform and m = demo_fresh and conn = ?c
                and env = "demo_env [?c]" and name = "''python''"
                and ip = "''stats.example.net''" and p = 53]
  note u = suspicious_counter_at_most_accessor
             [where pf = demo_platform and m = demo_fresh and conn = ?d
                and env = "demo_env [?d]" and name = "''python''"
                and ip = "''93.184.216.34''" and p = 587]
  from t u r k o e cd demo_stats_host_pattern demo_ip_no_pattern show ?thesis
    by (simp add: demo_conn_facts demo_fresh_fields NetworkStats_default_def)
qed

section \<open>Properties of the diagnostics engine\<close>

subsection \<open>The parsing loop\<close>

lemma parse_line_hops: "hops_acc (fst (parse_line l st)) = hops_acc st"
  by (simp add: parse_line_def is_timeout_name_def Let_def split: option.splits prod.splits)

lemma parse_lines_hops: "hops_acc (fst (parse_lines ls st)) = hops_acc st"
proof (induction ls arbitrary: st)
  case Nil
  show ?case by simp
next
  case (Cons l ls)
  obtain st' c where p: "parse_line l st = (st', c)" by (cases "parse_line l st")
  have h: "hops_acc st' = hops_acc st" using parse_line_hops [of l st] p by simp
  show ?case using Cons [of st'] h p by (cases c) simp_all
qed

lemma traced_hops_empty: "traced_hops env tgt mh = []"
  by (simp add: traced_hops_def Let_def parse_lines_hops split: sum.splits)

lemma hop_line_parse:
  assumes "hop_line l"
  shows "parse_line l st =
    (if count_list l CHR ''*'' \<ge> 3 then
       (st\<lparr> consecutive_timeouts := consecutive_timeouts st + 1 \<rparr>,
        if consecutive_timeouts st + 1 \<ge> 3 then Break else Continue)
     else
       (st\<lparr> consecutive_timeouts := 0 \<rparr>,
        case extract_ip l of None \<Rightarrow> Continue | Some x \<Rightarrow> Raise NameError))"
  using assms
  by (auto simp add: hop_line_def parse_line_def is_timeout_name_def Let_def
      split: option.splits prod.splits)

lemma not_hop_line_parse: "\<not> hop_line l \<Longrightarrow> parse_line l st = (st, Continue)"
  by (auto simp add: hop_line_def parse_line_def Let_def split: option.splits)

lemma demo_extract:
  "extract_ip demo_trace_line = Some (''93.184.216.34'', Some ''gw1'')"
  "extract_time demo_trace_line = 123 / 10"
  by code_simp+

lemma demo_hop_line: "hop_line demo_trace_line"
  by code_simp

lemma demo_stars: "count_list demo_trace_line CHR ''*'' = 0"
  by code_simp

lemma demo_output_lines: "output_lines demo_trace_output = [demo_trace_line]"
  by code_simp

lemma demo_timeout_lines:
  "hop_line '' 1  * * *''" "hop_line '' 2  * * *''" "hop_line '' 3  * * *''"
  "\<not> hop_line ''* * *''" "\<not> hop_line ''no reply''"
  by code_simp+

text \<open>
  Claim C1, evaluated on the code. For the output line
  \<open> 1  gw1 (93.184.216.34)  12.3 ms\<close> the patterns do find the address
  \<open>93.184.216.34\<close>, the hostname \<open>gw1\<close> and the time \<open>12.3\<close>; but building the hop raises
  \<open>NameError\<close>, the loop is left through the outer handler, and the path returned for
  this output has no hop at all.
\<close>

theorem traceroute_gw1_line_raises_NameError:
  "extract_ip demo_trace_line = Some (''93.184.216.34'', Some ''gw1'') \<and>
   extract_time demo_trace_line = 123 / 10 \<and>
   parse_line demo_trace_line parse_start = (parse_start, Raise NameError) \<and>
   output_lines demo_trace_output = [demo_trace_line] \<and>
   hops (traceroute (demo_net_env demo_trace_output) ''example.com'' 15) = []"
proof -
  have pl: "parse_line demo_trace_line parse_start = (parse_start, Raise NameError)"
    by (simp add: hop_line_parse [OF demo_hop_line] demo_stars demo_extract parse_start_def)
  have "traced_hops (demo_net_env demo_trace_output) ''example.com'' 15 = []"
    using pl by (simp add: traced_hops_def Let_def demo_net_env_def demo_output_lines
        parse_start_def)
  then have "hops (traceroute (demo_net_env demo_trace_output) ''example.com'' 15) = []"
    by (simp add: traceroute_def fallback_hops_def path_of_hops_def Let_def)
       (simp add: demo_net_env_def)
  with demo_extract demo_output_lines pl show ?thesis by simp
qed

text \<open>
  Claim C5, as the code has it. Among the lines that the loop examines (not blank, two
  tokens or more, an integer first), a line with three or more \<open>*\<close> adds one to the
  consecutive-timeout counter and ends the loop when the counter reaches 3, and a line
  with fewer resets the counter to 0. Every other line leaves the state as it is. From
  a counter of 0, three such timeout lines in a row end the loop with the counter at 3
  and the hop list unchanged, whatever lines follow.
\<close>

theorem consecutive_timeout_counter:
  "(hop_line l \<and> count_list l CHR ''*'' \<ge> 3 \<longrightarrow>
      consecutive_timeouts (fst (parse_line l st)) = consecutive_timeouts st + 1 \<and>
      (snd (parse_line l st) = Break) = (consecutive_timeouts st + 1 \<ge> 3)) \<and>
   (hop_line l \<and> count_list l CHR ''*'' < 3 \<longrightarrow>
      consecutive_timeouts (fst (parse_line l st)) = 0) \<and>
   (\<not> hop_line l \<longrightarrow> parse_line l st = (st, Continue)) \<and>
   (consecutive_timeouts st = 0 \<and>
    hop_line l1 \<and> count_list l1 CHR ''*'' \<ge> 3 \<and>
    hop_line l2 \<and> count_list l2 CHR ''*'' \<ge> 3 \<and>
    hop_line l3 \<and> count_list l3 CHR ''*'' \<ge> 3 \<longrightarrow>
      parse_lines (l1 # l2 # l3 # rest) st = (st\<lparr> consecutive_timeouts := 3 \<rparr>, None))"
  by (auto simp add: hop_line_parse not_hop_line_parse split: option.splits)

text \<open>The theorem at three timeout lines followed by an answering hop, at the line of
  claim C1, and at a line without a hop number.\<close>

theorem consecutive_timeout_counter_witness:
  "hop_line '' 1  * * *'' \<and> count_list '' 1  * * *'' CHR ''*'' \<ge> 3 \<and>
   consecutive_timeouts (fst (parse_line '' 1  * * *'' parse_start)) = 1 \<and>
   snd (parse_line '' 1  * * *'' parse_start) \<noteq> Break \<and>
   hop_line demo_trace_line \<and> count_list demo_trace_line CHR ''*'' < 3 \<and>
   consecutive_timeouts
     (fst (parse_line demo_trace_line (parse_start\<lparr> consecutive_timeouts := 2 \<rparr>))) = 0 \<and>
   \<not> hop_line ''* * *'' \<and> parse_line ''* * *'' parse_start = (parse_start, Continue) \<and>
   parse_lines ['' 1  * * *'', '' 2  * * *'', '' 3  * * *'', '' 4  10.0.0.1  1.0 ms'']
     parse_start = (parse_start\<lparr> consecutive_timeouts := 3 \<rparr>, None)"
proof -
  have c: "count_list '' 1  * * *'' CHR ''*'' \<ge> 3" "count_list '' 2  * * *'' CHR ''*'' \<ge> 3"
    "count_list '' 3  * * *'' CHR ''*'' \<ge> 3"
    by simp_all
  have z: "consecutive_timeouts parse_start = 0" by (simp add: parse_start_def)
  note a = consecutive_timeout_counter [where l = "'' 1  * * *''" and st = parse_start
             and ?l1.0 = "'' 1  * * *''" and ?l2.0 = "'' 2  * * *''" and ?l3.0 = "'' 3  * * *''"
             and rest = "['' 4  10.0.0.1  1.0 ms'']"]
  note b = consecutive_timeout_counter [where l = demo_trace_line
             and st = "parse_start\<lparr> consecutive_timeouts := 2 \<rparr>"]
  note d = consecutive_timeout_counter [where l = "''* * *''" and st = parse_start]
  from a b d c z demo_timeout_lines demo_hop_line demo_stars show ?thesis
    by simp
qed

text \<open>
  Claim C5 as stated fails on lines that the loop passes over: \<open>* * *\<close> has three \<open>*\<close>
  and leaves the counter at 0, and \<open>no reply\<close> has none and leaves a counter of 2 at 2.
\<close>

theorem timeout_counter_counterexample:
  "count_list ''* * *'' CHR ''*'' \<ge> 3 \<and>
   consecutive_timeouts (fst (parse_line ''* * *'' parse_start)) = 0 \<and>
   count_list ''no reply'' CHR ''*'' < 3 \<and>
   consecutive_timeouts
     (fst (parse_line ''no reply'' (parse_start\<lparr> consecutive_timeouts := 2 \<rparr>))) = 2"
  by (simp add: not_hop_line_parse [OF demo_timeout_lines(4)]
      not_hop_line_parse [OF demo_timeout_lines(5)] parse_start_def)

subsection \<open>Path statistics\<close>

lemma length_filter_split:
  "int (length hs) - int (length (filter (\<lambda>hp. \<not> P hp) hs)) = int (length (filter P hs))"
  using sum_length_filter_compl [of P hs] by simp

lemma path_of_hops_stats:
  "avg_rtt (path_of_hops tgt hs) =
     (if filter (\<lambda>hp. \<not> is_timeout hp) hs = [] then 0
      else sum_list (map TracerouteHop.response_time (filter (\<lambda>hp. \<not> is_timeout hp) hs)) /
           of_nat (length (filter (\<lambda>hp. \<not> is_timeout hp) hs)))"
  "packet_loss (path_of_hops tgt hs) =
     (if hs = [] then 0
      else of_nat (length (filter is_timeout hs)) / of_nat (length hs) * 100)"
  "hops (path_of_hops tgt hs) = hs"
  "total_hops (path_of_hops tgt hs) = int (length hs)"
  by (simp_all add: path_of_hops_def Let_def length_filter_split)

lemma loss_bounds:
  "0 \<le> packet_loss (path_of_hops tgt hs) \<and> packet_loss (path_of_hops tgt hs) \<le> 100"
proof (cases "hs = []")
  case True
  then show ?thesis by (simp add: path_of_hops_stats)
next
  case False
  define q :: rat where "q = of_nat (length (filter is_timeout hs)) / of_nat (length hs)"
  have pos: "(0::rat) < of_nat (length hs)" using False by simp
  have le: "(of_nat (length (filter is_timeout hs)) :: rat) \<le> of_nat (length hs)"
    by simp
  have q1: "q \<le> 1" unfolding q_def using pos le by (simp add: divide_le_eq_1)
  have q0: "0 \<le> q" unfolding q_def by simp
  have pl: "packet_loss (path_of_hops tgt hs) = q * 100"
    using False by (simp add: path_of_hops_stats q_def)
  show ?thesis unfolding pl using q0 q1 by simp
qed

lemma traceroute_hops:
  "hops (traceroute env tgt mh) = fallback_hops env tgt []"
  by (simp add: traceroute_def traced_hops_empty path_of_hops_stats)

text \<open>
  Claim C4. The path that \<open>traceroute\<close> returns is built from its final hop list by the
  statistics block, and for every hop list that block gives: \<open>avg_rtt\<close> is the sum of the
  response times of the hops that are not timeouts divided by their number, and 0 when
  there is none; \<open>packet_loss\<close> is the number of timeout hops divided by the number of
  hops, times 100, and 0 for the empty list; it lies between 0 and 100; \<open>hops\<close> is the
  list itself and \<open>total_hops\<close> its length.
\<close>

theorem traceroute_statistics:
  "traceroute env tgt mh = path_of_hops tgt (fallback_hops env tgt (traced_hops env tgt mh)) \<and>
   hops (path_of_hops tgt hs) = hs \<and>
   total_hops (path_of_hops tgt hs) = int (length hs) \<and>
   avg_rtt (path_of_hops tgt hs) =
     (if filter (\<lambda>hp. \<not> is_timeout hp) hs = [] then 0
      else sum_list (map TracerouteHop.response_time (filter (\<lambda>hp. \<not> is_timeout hp) hs)) /
           of_nat (length (filter (\<lambda>hp. \<not> is_timeout hp) hs))) \<and>
   packet_loss (path_of_hops tgt hs) =
     (if total_hops (path_of_hops tgt hs) = 0 then 0
      else of_nat (length (filter is_timeout hs)) /
           of_int (total_hops (path_of_hops tgt hs)) * 100) \<and>
   0 \<le> packet_loss (path_of_hops tgt hs) \<and> packet_loss (path_of_hops tgt hs) \<le> 100 \<and>
   (total_hops (path_of_hops tgt hs) = 0 \<longrightarrow> packet_loss (path_of_hops tgt hs) = 0)"
  using loss_bounds [of tgt hs]
  by (simp add: traceroute_def path_of_hops_stats)

text \<open>The theorem at a list of two answering hops of 10 and 20 milliseconds with a
  timeout hop between them, at the empty list, and at a trace whose single hop comes
  from the connectivity test.\<close>

theorem traceroute_statistics_witness:
  "total_hops (path_of_hops ''example.com'' demo_hops) = 3 \<and>
   avg_rtt (path_of_hops ''example.com'' demo_hops) = 15 \<and>
   packet_loss (path_of_hops ''example.com'' demo_hops) = 100 / 3 \<and>
   total_hops (path_of_hops ''example.com'' []) = 0 \<and>
   packet_loss (path_of_hops ''example.com'' []) = 0 \<and>
   avg_rtt (path_of_hops ''example.com'' []) = 0 \<and>
   total_hops (traceroute demo_fallback_env ''example.com'' 15) = 1 \<and>
   packet_loss (traceroute demo_fallback_env ''example.com'' 15) = 0 \<and>
   avg_rtt (traceroute demo_fallback_env ''example.com'' 15) = 15"
proof -
  have f: "fallback_hops demo_fallback_env ''example.com''
             (traced_hops demo_fallback_env ''example.com'' 15) =
      [\<lparr> hop_number = 1, ip_address = ''93.184.216.34'', hostname = Some ''example.com'',
         TracerouteHop.response_time = 15, is_timeout = False \<rparr>]"
    by (simp add: traced_hops_empty fallback_hops_def demo_fallback_env_def)
  note a = traceroute_statistics [where tgt = "''example.com''" and hs = demo_hops]
  note b = traceroute_statistics [where tgt = "''example.com''" and hs = "[]"]
  note c = traceroute_statistics [where env = demo_fallback_env and tgt = "''example.com''"
             and mh = 15 and hs = "fallback_hops demo_fallback_env ''example.com''
               (traced_hops demo_fallback_env ''example.com'' 15)"]
  have a': "total_hops (path_of_hops ''example.com'' demo_hops) = 3 \<and>
      avg_rtt (path_of_hops ''example.com'' demo_hops) = 15 \<and>
      packet_loss (path_of_hops ''example.com'' demo_hops) = 100 / 3"
    using a by (simp add: demo_hops_def)
  have b': "total_hops (path_of_hops ''example.com'' []) = 0 \<and>
      packet_loss (path_of_hops ''example.com'' []) = 0 \<and>
      avg_rtt (path_of_hops ''example.com'' []) = 0"
    using b by simp
  have c': "total_hops (traceroute demo_fallback_env ''example.com'' 15) = 1 \<and>
      packet_loss (traceroute demo_fallback_env ''example.com'' 15) = 0 \<and>
      avg_rtt (traceroute demo_fallback_env ''example.com'' 15) = 15"
    using c by (simp add: f)
  from a' b' c' show ?thesis by simp
qed

subsection \<open>Name resolution\<close>

text \<open>
  Claim C6. \<open>resolve_dns\<close> returns a result for every hostname and every outcome of the
  two lookups: the address list is what the A lookup returned, or empty when it raised;
  the MX list likewise, independently of the A lookup; \<open>authoritative\<close> holds exactly
  when the address list is not empty; and when both lookups raise, both lists are empty
  and \<open>authoritative\<close> is false.
\<close>

theorem resolve_dns_never_raises:
  "\<exists>r. fst (resolve_dns env cache h) = Inr r \<and>
       ip_addresses r = (case resolve_A env h of Inr a \<Rightarrow> a | Inl e \<Rightarrow> []) \<and>
       mx_records r = (case resolve_MX env h of Inr a \<Rightarrow> a | Inl e \<Rightarrow> []) \<and>
       authoritative r = (ip_addresses r \<noteq> []) \<and>
       (isl (resolve_A env h) \<and> isl (resolve_MX env h) \<longrightarrow>
          ip_addresses r = [] \<and> mx_records r = [] \<and> \<not> authoritative r)"
  by (auto simp add: resolve_dns_def Let_def isl_def split: sum.splits)

text \<open>The theorem at a host for which both lookups raise, and at one whose A lookup
  answers while the MX lookup raises.\<close>

theorem resolve_dns_never_raises_witness:
  "isl (resolve_A (demo_net_env []) ''nowhere.invalid'') \<and>
   isl (resolve_MX (demo_net_env []) ''nowhere.invalid'') \<and>
   (\<exists>r. fst (resolve_dns (demo_net_env []) Map.empty ''nowhere.invalid'') = Inr r \<and>
        ip_addresses r = [] \<and> mx_records r = [] \<and> \<not> authoritative r) \<and>
   (\<exists>r. fst (resolve_dns demo_fallback_env Map.empty ''example.com'') = Inr r \<and>
        ip_addresses r = [''93.184.216.34''] \<and> mx_records r = [] \<and> authoritative r)"
proof -
  have l: "isl (resolve_A (demo_net_env []) ''nowhere.invalid'')"
    "isl (resolve_MX (demo_net_env []) ''nowhere.invalid'')"
    by (simp_all add: demo_net_env_def)
  have f: "resolve_A demo_fallback_env ''example.com'' = Inr [''93.184.216.34'']"
    "resolve_MX demo_fallback_env ''example.com'' = Inl OtherException"
    by (simp_all add: demo_fallback_env_def)
  from resolve_dns_never_raises [of "demo_net_env []" Map.empty "''nowhere.invalid''"] l
  have a: "\<exists>r. fst (resolve_dns (demo_net_env []) Map.empty ''nowhere.invalid'') = Inr r \<and>
        ip_addresses r = [] \<and> mx_records r = [] \<and> \<not> authoritative r"
    by blast
  from resolve_dns_never_raises [of demo_fallback_env Map.empty "''example.com''"]
  have b: "\<exists>r. fst (resolve_dns demo_fallback_env Map.empty ''example.com'') = Inr r \<and>
        ip_addresses r = [''93.184.216.34''] \<and> mx_records r = [] \<and> authoritative r"
    unfolding f by auto
  from l a b show ?thesis by blast
qed

subsection \<open>Throttling\<close>

lemma collect_blocked_ports:
  "snd (collect_blocked rs (sb, bp)) = bp @ map port (filter (\<lambda>r. \<not> is_open r) rs)"
  by (induction rs arbitrary: sb bp) simp_all

lemma scan_port_fields:
  "port (scan_port env h p) = p" "is_open (scan_port env h p) = (\<not> probe_failed env h p)"
  by (simp_all add: scan_port_def probe_failed_def split: sum.splits)

lemma collected_blocked:
  "collect_blocked (scan_smtp_ports env h) ([], []) = (sb, bl) \<Longrightarrow>
     bl = filter (probe_failed env h) smtp_ports"
  using collect_blocked_ports [of "scan_smtp_ports env h" "[]" "[]"]
  by (simp add: scan_smtp_ports_def filter_map comp_def scan_port_fields)

text \<open>
  Claim C7. The \<open>throttling_detected\<close> field of the analysis is true exactly when more
  than one of the ports 25, 465, 587, 2525 failed its connect probe, or the packet loss
  of the path traced in the same call is above 2.
\<close>

theorem throttling_detected_iff:
  "throttling_detected (analyze_isp_interference env h p) =
     (length (filter (probe_failed env h) [25, 465, 587, 2525]) > 1 \<or>
      packet_loss (traceroute env h 15) > 2)"
proof -
  obtain sb bl where c: "collect_blocked (scan_smtp_ports env h) ([], []) = (sb, bl)"
    by (cases "collect_blocked (scan_smtp_ports env h) ([], [])")
  have b: "bl = filter (probe_failed env h) [25, 465, 587, 2525]"
    using collected_blocked [OF c] by (simp add: smtp_ports_def)
  have "throttling_detected (analyze_isp_interference env h p) =
          (length bl > 1 \<or> packet_loss (traceroute env h 15) > 2)"
    by (simp add: analyze_isp_interference_def Let_def c)
  then show ?thesis unfolding b .
qed

text \<open>The theorem at a host that refuses all four ports.\<close>

theorem throttling_detected_iff_witness:
  "length (filter (probe_failed (demo_net_env demo_trace_output) ''example.com'')
     [25, 465, 587, 2525]) = 4 \<and>
   throttling_detected
     (analyze_isp_interference (demo_net_env demo_trace_output) ''example.com'' 25)"
proof -
  have f: "probe_failed (demo_net_env demo_trace_output) ''example.com'' q" for q
    by (simp add: probe_failed_def demo_net_env_def)
  from throttling_detected_iff [of "demo_net_env demo_trace_output" "''example.com''" 25]
  show ?thesis by (simp add: f)
qed

end
